theory Spec2Isabelle
  imports Complex_Main
begin

section \<open>JavaScript values, strings and responses\<close>

text \<open>
  Request bodies and response bodies are JSON. A body field that is absent reads as
  \<open>JUndefined\<close>. JSON numbers are finite, so \<open>NaN\<close> never reaches a handler.
\<close>

datatype jsval =
    JUndefined
  | JNull
  | JBool bool
  | JNum rat
  | JStr string
  | JArr "jsval list"
  | JObj "(string \<times> jsval) list"

text \<open>The truthiness test of \<open>if (v)\<close>, \<open>v && e\<close>, \<open>v || e\<close> and \<open>v ? a : b\<close>.\<close>

fun truthy :: "jsval \<Rightarrow> bool" where
  "truthy JUndefined = False"
| "truthy JNull = False"
| "truthy (JBool b) = b"
| "truthy (JNum q) = (q \<noteq> 0)"
| "truthy (JStr s) = (s \<noteq> [])"
| "truthy (JArr xs) = True"
| "truthy (JObj kvs) = True"

text \<open>
  \<open>String.prototype.toUpperCase\<close> on the ASCII range: the letters a..z (codes 97..122)
  move to A..Z, every other character is kept. Role names, media types and header values
  of this program are ASCII.
\<close>

definition toUpperCase_char :: "char \<Rightarrow> char" where
  "toUpperCase_char c =
     (let n = (of_char c :: nat) in if 97 \<le> n \<and> n \<le> 122 then char_of (n - 32) else c)"

definition toUpperCase :: "string \<Rightarrow> string" where
  "toUpperCase s = map toUpperCase_char s"

text \<open>\<open>Array.prototype.join\<close> on an array of strings.\<close>

fun join :: "string \<Rightarrow> string list \<Rightarrow> string" where
  "join sep [] = []"
| "join sep [x] = x"
| "join sep (x # y # ys) = x @ sep @ join sep (y # ys)"

text \<open>\<open>String.prototype.split\<close> with a one-character separator.\<close>

fun split :: "char \<Rightarrow> string \<Rightarrow> string list" where
  "split sep [] = [[]]"
| "split sep (c # cs) =
     (if c = sep then [] # split sep cs
      else (case split sep cs of [] \<Rightarrow> [[c]] | w # ws \<Rightarrow> (c # w) # ws))"

text \<open>Reading \<open>xs[i]\<close>: out of range gives \<open>undefined\<close>, here \<open>None\<close>.\<close>

definition index :: "'a list \<Rightarrow> nat \<Rightarrow> 'a option" where
  "index xs i = (if i < length xs then Some (xs ! i) else None)"

text \<open>\<open>res.status(n).json(obj)\<close>: the status code and the object handed to \<open>json\<close>.\<close>

record response =
  status :: nat
  body :: "(string \<times> jsval) list"

text \<open>
  The claims of a verified token, as \<open>loginUser\<close> signs them: \<open>userId\<close>, \<open>name\<close>
  (nullable), \<open>email\<close> and \<open>role\<close>. A token without a role claim has
  \<open>t_role = None\<close>, the case the source guards with \<open>role?.toUpperCase()\<close>.
\<close>

record claims =
  userId :: string
  t_name :: "string option"
  t_email :: string
  t_role :: "string option"

text \<open>
  The part of an Express request the handlers read: the \<open>Authorization\<close> header,
  the route parameter \<open>:id\<close>, the parsed body and \<open>req.user\<close>, which only
  \<open>authenticate\<close> sets.
\<close>

record request =
  authorization :: "string option"
  params_id :: string
  req_body :: "string \<Rightarrow> jsval"
  user :: "claims option"

text \<open>Exceptions that the handlers' \<open>try/catch\<close> blocks turn into status 500.\<close>

datatype js_error =
    TypeError
  | SyntaxError
  | BcryptError
  | PrismaValidationError
  | PrismaUniqueViolation
  | PrismaForeignKeyViolation
  | PrismaRecordNotFound

text \<open>
  What the program takes from its libraries and its runtime. \<open>jwt_verify\<close> is
  \<open>jwt.verify(token, JWT_SECRET)\<close> (\<open>None\<close> when it throws), \<open>jwt_sign\<close> is
  \<open>jwt.sign(payload, JWT_SECRET, options)\<close> with the \<open>expiresIn\<close> option it was
  given, \<open>bcrypt_hash\<close> is \<open>bcrypt.hash\<close> with the salt \<open>bcrypt.genSalt(10)\<close> drew,
  \<open>bcrypt_compare\<close> is \<open>bcrypt.compare\<close>, \<open>JSON_parse\<close> is \<open>JSON.parse\<close>
  (\<open>None\<close> when it throws), \<open>date_parse_other\<close> is \<open>Date.parse\<close> on strings
  outside the format \<open>toISOString\<close> writes (engine-defined), \<open>date_of_object\<close> is
  the time value of \<open>new Date(v)\<close> for an array or object \<open>v\<close>, \<open>now\<close> is the
  time value of \<open>new Date()\<close>, \<open>db_now\<close> the store's \<open>CURRENT_TIMESTAMP\<close>,
  \<open>uuid\<close> the identifier the store draws for a new row, \<open>error_message\<close> the
  \<open>message\<close> of a caught exception, and \<open>scalar_list_other\<close> the client's reading
  of a value that is no array where the schema has \<open>String[]\<close> (rejected, \<open>None\<close>,
  or coerced to a list, depending on the client). \<open>set_rejects_missing\<close> says whether
  a relation \<open>set\<close> that names a missing record throws, or connects the records it
  finds.
\<close>

record env =
  jwt_verify :: "string \<Rightarrow> claims option"
  jwt_sign :: "(string \<times> jsval) list \<Rightarrow> nat option \<Rightarrow> string"
  bcrypt_hash :: "string \<Rightarrow> string"
  bcrypt_compare :: "string \<Rightarrow> string \<Rightarrow> bool"
  JSON_parse :: "string \<Rightarrow> jsval option"
  date_parse_other :: "string \<Rightarrow> int option"
  date_of_object :: "jsval \<Rightarrow> int option"
  now :: int
  db_now :: int
  uuid :: string
  error_message :: "js_error \<Rightarrow> string"
  scalar_list_other :: "jsval \<Rightarrow> string list option"
  set_rejects_missing :: bool

section \<open>Access control middleware\<close>

text \<open>A middleware either answers the request or calls \<open>next()\<close> with the request.\<close>

datatype outcome = Respond response | Next request

definition authenticate :: "env \<Rightarrow> request \<Rightarrow> outcome" where
  "authenticate E req =
     (case authorization req of
        None \<Rightarrow>
          Respond \<lparr>status = 401,
                   body = [(''success'', JBool False),
                           (''message'', JStr ''Unauthorized - No token provided'')]\<rparr>
      | Some authHeader \<Rightarrow>
          if authHeader = [] \<or> take 7 authHeader \<noteq> ''Bearer '' then
            Respond \<lparr>status = 401,
                     body = [(''success'', JBool False),
                             (''message'', JStr ''Unauthorized - No token provided'')]\<rparr>
          else
            (case index (split CHR '' '' authHeader) 1 of
               None \<Rightarrow>
                 Respond \<lparr>status = 401,
                          body = [(''success'', JBool False),
                                  (''message'', JStr ''Invalid Token'')]\<rparr>
             | Some token \<Rightarrow>
                 (case jwt_verify E token of
                    None \<Rightarrow>
                      Respond \<lparr>status = 401,
                               body = [(''success'', JBool False),
                                       (''message'', JStr ''Invalid Token'')]\<rparr>
                  | Some decoded \<Rightarrow>
                      Next (req\<lparr>user :=
                        Some (decoded\<lparr>t_role := map_option toUpperCase (t_role decoded)\<rparr>)\<rparr>))))"

definition restrictTo :: "string list \<Rightarrow> request \<Rightarrow> outcome" where
  "restrictTo allowedRoles req =
     (case user req of
        None \<Rightarrow>
          Respond \<lparr>status = 401,
                   body = [(''success'', JBool False),
                           (''message'', JStr ''User not authenticated'')]\<rparr>
      | Some u \<Rightarrow>
          (let userRole = map_option toUpperCase (t_role u);
               allowedRolesUpper = map toUpperCase allowedRoles
           in if \<not> (case userRole of None \<Rightarrow> False | Some r \<Rightarrow> r \<in> set allowedRolesUpper)
              then
                Respond \<lparr>status = 403,
                  body = [(''success'', JBool False),
                          (''message'', JStr (''You do not have permission to perform this action. Required role: ''
                                              @ join '' or '' allowedRoles)),
                          (''userRole'', (case userRole of None \<Rightarrow> JUndefined | Some r \<Rightarrow> JStr r))]\<rparr>
              else Next req))"

text \<open>
  An Express route: the middlewares run in their declared order, the handler runs only
  when every middleware called \<open>next()\<close>. Handlers take the store and return it.
\<close>

fun run :: "(request \<Rightarrow> outcome) list \<Rightarrow> ('s \<Rightarrow> request \<Rightarrow> 's \<times> response) \<Rightarrow>
    's \<Rightarrow> request \<Rightarrow> 's \<times> response" where
  "run [] h db req = h db req"
| "run (m # ms) h db req =
     (case m req of Respond r \<Rightarrow> (db, r) | Next req' \<Rightarrow> run ms h db req')"

section \<open>Dates\<close>

text \<open>
  A \<open>Date\<close> is its time value, milliseconds since 1970-01-01T00:00:00Z; \<open>None\<close> is
  the invalid date (time value \<open>NaN\<close>). The day number is split into year, month and day
  of the proleptic Gregorian calendar over 400-year eras that start on 1 March.
\<close>

definition msPerDay :: int where
  "msPerDay = 86400000"

definition Day :: "int \<Rightarrow> int" where
  "Day t = t div msPerDay"

definition TimeWithinDay :: "int \<Rightarrow> int" where
  "TimeWithinDay t = t mod msPerDay"

definition civil_from_days :: "int \<Rightarrow> int \<times> int \<times> int" where
  "civil_from_days z =
     (let z1 = z + 719468;
          era = z1 div 146097;
          doe = z1 - era * 146097;
          yoe = (doe - doe div 1460 + doe div 36524 - doe div 146096) div 365;
          doy = doe - (365 * yoe + yoe div 4 - yoe div 100);
          mp = (5 * doy + 2) div 153;
          d = doy - (153 * mp + 2) div 5 + 1;
          m = (if mp < 10 then mp + 3 else mp - 9);
          y = yoe + era * 400
      in (if m \<le> 2 then y + 1 else y, m, d))"




text \<open>Decimal digits: \<open>pad w n\<close> writes the last \<open>w\<close> digits of \<open>n \<ge> 0\<close>.\<close>

definition digit_char :: "int \<Rightarrow> char" where
  "digit_char n = char_of (48 + nat n)"

primrec pad :: "nat \<Rightarrow> int \<Rightarrow> string" where
  "pad 0 n = []"
| "pad (Suc w) n = pad w (n div 10) @ [digit_char (n mod 10)]"



text \<open>
  \<open>Date.prototype.toISOString\<close> of a valid date: \<open>YYYY-MM-DDTHH:mm:ss.sssZ\<close>, the
  year written with a sign and six digits outside 0..9999.
\<close>

definition toISOString :: "int \<Rightarrow> string" where
  "toISOString t =
     (case civil_from_days (Day t) of (y, m, d) \<Rightarrow>
        (let tod = TimeWithinDay t in
         (if 0 \<le> y \<and> y \<le> 9999 then pad 4 y
          else (if y < 0 then ''-'' else ''+'') @ pad 6 \<bar>y\<bar>)
         @ ''-'' @ pad 2 m @ ''-'' @ pad 2 d
         @ ''T'' @ pad 2 (tod div 3600000) @ '':'' @ pad 2 (tod div 60000 mod 60)
         @ '':'' @ pad 2 (tod div 1000 mod 60) @ ''.'' @ pad 3 (tod mod 1000) @ ''Z''))"






section \<open>The store\<close>

text \<open>
  The relational store as the Prisma client of \<open>prisma/schema.prisma\<close> sees it: the
  models \<open>User\<close> and \<open>Journal\<close>, the junction table of tagged students kept
  with each journal as the list of tagged user ids (its primary key admits each pair
  once). The SQL migration adds a column \<open>publish_at\<close> to the table \<open>journals\<close>,
  but \<open>model Journal\<close> does not declare it: the client neither returns it nor accepts
  it in \<open>where\<close> or \<open>data\<close>, so the rows here do not carry it. Timestamps are
  time values in milliseconds.
\<close>

datatype Role = STUDENT | TEACHER | ADMIN

datatype MediaType = IMAGE | VIDEO | AUDIO | PDF

fun Role_name :: "Role \<Rightarrow> string" where
  "Role_name STUDENT = ''STUDENT''"
| "Role_name TEACHER = ''TEACHER''"
| "Role_name ADMIN = ''ADMIN''"

definition Role_of :: "string \<Rightarrow> Role option" where
  "Role_of s =
     (if s = ''STUDENT'' then Some STUDENT
      else if s = ''TEACHER'' then Some TEACHER
      else if s = ''ADMIN'' then Some ADMIN else None)"

fun MediaType_name :: "MediaType \<Rightarrow> string" where
  "MediaType_name IMAGE = ''IMAGE''"
| "MediaType_name VIDEO = ''VIDEO''"
| "MediaType_name AUDIO = ''AUDIO''"
| "MediaType_name PDF = ''PDF''"

definition MediaType_of :: "string \<Rightarrow> MediaType option" where
  "MediaType_of s =
     (if s = ''IMAGE'' then Some IMAGE
      else if s = ''VIDEO'' then Some VIDEO
      else if s = ''AUDIO'' then Some AUDIO
      else if s = ''PDF'' then Some PDF else None)"

record User =
  u_id :: string
  u_name :: "string option"
  u_email :: string
  u_password :: string
  u_role :: Role
  u_created_at :: int
  u_updated_at :: int

record Journal =
  j_id :: string
  j_title :: string
  j_content :: string
  j_media :: "string list"
  j_mediaType :: "MediaType option"
  j_teacherId :: string
  j_taggedStudents :: "string list"
  j_created_at :: int
  j_updated_at :: int

record store =
  users :: "User list"
  journals :: "Journal list"

subsection \<open>Rows as JSON\<close>

definition string_or_null :: "string option \<Rightarrow> jsval" where
  "string_or_null x = (case x of None \<Rightarrow> JNull | Some s \<Rightarrow> JStr s)"

definition date_json :: "int \<Rightarrow> jsval" where
  "date_json t = JStr (toISOString t)"

definition User_json :: "User \<Rightarrow> jsval" where
  "User_json u =
     JObj [(''id'', JStr (u_id u)),
           (''name'', string_or_null (u_name u)),
           (''email'', JStr (u_email u)),
           (''password'', JStr (u_password u)),
           (''role'', JStr (Role_name (u_role u))),
           (''created_at'', date_json (u_created_at u)),
           (''updated_at'', date_json (u_updated_at u))]"

text \<open>A journal with \<open>include: { teacher: true, taggedStudents: true }\<close>.\<close>

definition Journal_json :: "store \<Rightarrow> Journal \<Rightarrow> jsval" where
  "Journal_json db j =
     JObj [(''id'', JStr (j_id j)),
           (''title'', JStr (j_title j)),
           (''content'', JStr (j_content j)),
           (''media'', JArr (map JStr (j_media j))),
           (''mediaType'', string_or_null (map_option MediaType_name (j_mediaType j))),
           (''teacherId'', JStr (j_teacherId j)),
           (''created_at'', date_json (j_created_at j)),
           (''updated_at'', date_json (j_updated_at j)),
           (''teacher'', (case List.find (\<lambda>u. u_id u = j_teacherId j) (users db) of
                            None \<Rightarrow> JNull | Some u \<Rightarrow> User_json u)),
           (''taggedStudents'',
              JArr (map User_json (filter (\<lambda>u. u_id u \<in> set (j_taggedStudents j)) (users db))))]"

subsection \<open>Client calls on users\<close>

text \<open>
  \<open>prisma.user.findUnique({ where: { email } })\<close>: the client rejects a \<open>where\<close>
  without a string; otherwise the row with that email, or \<open>null\<close>.
\<close>

definition prisma_user_findUnique_email :: "store \<Rightarrow> jsval \<Rightarrow> js_error + User option" where
  "prisma_user_findUnique_email db email =
     (case email of
        JStr e \<Rightarrow> Inr (List.find (\<lambda>u. u_email u = e) (users db))
      | _ \<Rightarrow> Inl PrismaValidationError)"

definition prisma_user_findUnique_id :: "store \<Rightarrow> string \<Rightarrow> User option" where
  "prisma_user_findUnique_id db uid = List.find (\<lambda>u. u_id u = uid) (users db)"


section \<open>User service\<close>

text \<open>\<open>v?.toUpperCase()\<close>: \<open>undefined\<close> for a nullish \<open>v\<close>, a TypeError for a
  value that is no string.\<close>

fun optional_toUpperCase :: "jsval \<Rightarrow> js_error + jsval" where
  "optional_toUpperCase JUndefined = Inr JUndefined"
| "optional_toUpperCase JNull = Inr JUndefined"
| "optional_toUpperCase (JStr s) = Inr (JStr (toUpperCase s))"
| "optional_toUpperCase v = Inl TypeError"

definition failed :: "env \<Rightarrow> string \<Rightarrow> js_error \<Rightarrow> response" where
  "failed E msg e =
     \<lparr>status = 500,
      body = [(''success'', JBool False), (''message'', JStr msg),
              (''error'', JStr (error_message E e))]\<rparr>"


definition loginUser :: "env \<Rightarrow> store \<Rightarrow> request \<Rightarrow> store \<times> response" where
  "loginUser E db req =
     (let email = req_body req ''email''; password = req_body req ''password''
      in case prisma_user_findUnique_email db email of
           Inl e \<Rightarrow> (db, failed E ''User login failed'' e)
         | Inr None \<Rightarrow>
             (db, \<lparr>status = 400,
                   body = [(''success'', JBool False), (''message'', JStr ''User not found'')]\<rparr>)
         | Inr (Some u) \<Rightarrow>
             (case password of
                JStr pw \<Rightarrow>
                  if \<not> bcrypt_compare E pw (u_password u) then
                    (db, \<lparr>status = 400,
                          body = [(''success'', JBool False), (''message'', JStr ''Invalid password'')]\<rparr>)
                  else
                    (let token = jwt_sign E [(''userId'', JStr (u_id u)),
                                             (''name'', string_or_null (u_name u)),
                                             (''email'', JStr (u_email u)),
                                             (''role'', JStr (Role_name (u_role u)))] None
                     in (db, \<lparr>status = 200,
                              body = [(''success'', JBool True),
                                      (''message'', JStr ''User logged in successfully''),
                                      (''user'', JObj [(''id'', JStr (u_id u)),
                                                       (''name'', string_or_null (u_name u)),
                                                       (''email'', JStr (u_email u)),
                                                       (''role'', JStr (Role_name (u_role u)))]),
                                      (''token'', JStr token)]\<rparr>))
              | _ \<Rightarrow> (db, failed E ''User login failed'' BcryptError)))"

section \<open>Journal service\<close>

subsection \<open>Client calls on journals\<close>

text \<open>
  The \<open>where\<close> filters the program builds: \<open>AND\<close>, \<open>OR\<close>,
  \<open>taggedStudents: { some: { id } }\<close>, \<open>publish_at: null\<close>,
  \<open>publish_at: { lte: date }\<close> and \<open>teacherId\<close>.
\<close>

datatype journal_where =
    AND "journal_where list"
  | OR "journal_where list"
  | taggedStudents_some_id string
  | publish_at_null
  | publish_at_lte int
  | teacherId_equals string

text \<open>
  The client checks a filter against \<open>model Journal\<close> before any row is read. The
  model declares \<open>teacherId\<close> and \<open>taggedStudents\<close>; it declares no
  \<open>publish_at\<close>, so a filter that names it anywhere is refused.
\<close>

fun known_to_schema :: "journal_where \<Rightarrow> bool" where
  "known_to_schema (AND ws) = list_all known_to_schema ws"
| "known_to_schema (OR ws) = list_all known_to_schema ws"
| "known_to_schema (taggedStudents_some_id uid) = True"
| "known_to_schema publish_at_null = False"
| "known_to_schema (publish_at_lte t) = False"
| "known_to_schema (teacherId_equals uid) = True"

text \<open>
  The rows a checked filter selects. The two filters on \<open>publish_at\<close> select
  nothing; no call reaches them, since \<open>findMany\<close> refuses them first.
\<close>

fun matches :: "journal_where \<Rightarrow> Journal \<Rightarrow> bool" where
  "matches (AND ws) j = list_all (\<lambda>w. matches w j) ws"
| "matches (OR ws) j = list_ex (\<lambda>w. matches w j) ws"
| "matches (taggedStudents_some_id uid) j = (uid \<in> set (j_taggedStudents j))"
| "matches publish_at_null j = False"
| "matches (publish_at_lte t) j = False"
| "matches (teacherId_equals uid) j = (j_teacherId j = uid)"

text \<open>
  \<open>prisma.journal.findMany({ where, orderBy })\<close>: a filter outside the schema throws
  a validation error. Otherwise, without \<open>orderBy\<close> the rows come in table order;
  \<open>orderBy: { created_at: 'desc' }\<close> sorts them, newest first.
\<close>

definition prisma_journal_findMany ::
    "store \<Rightarrow> journal_where \<Rightarrow> bool \<Rightarrow> js_error + Journal list" where
  "prisma_journal_findMany db w created_at_desc =
     (if \<not> known_to_schema w then Inl PrismaValidationError
      else
        (let rows = filter (matches w) (journals db)
         in Inr (if created_at_desc then rev (sort_key j_created_at rows) else rows)))"

definition prisma_journal_findUnique :: "store \<Rightarrow> string \<Rightarrow> Journal option" where
  "prisma_journal_findUnique db jid = List.find (\<lambda>j. j_id j = jid) (journals db)"

text \<open>The checks of the client and the store on the arguments of a write.\<close>

definition required_string :: "jsval \<Rightarrow> string option" where
  "required_string v = (case v of JStr s \<Rightarrow> Some s | _ \<Rightarrow> None)"

text \<open>In \<open>update\<close> an \<open>undefined\<close> field is left as it is (inner \<open>None\<close>).\<close>

definition updated_string :: "jsval \<Rightarrow> string option option" where
  "updated_string v = (case v of JStr s \<Rightarrow> Some (Some s) | JUndefined \<Rightarrow> Some None | _ \<Rightarrow> None)"

fun strings_of :: "jsval list \<Rightarrow> string list option" where
  "strings_of [] = Some []"
| "strings_of (JStr s # vs) = (case strings_of vs of None \<Rightarrow> None | Some ss \<Rightarrow> Some (s # ss))"
| "strings_of (v # vs) = None"

text \<open>An argument for a \<open>String[]\<close> column: an array of strings is taken as it is.\<close>

definition string_list :: "env \<Rightarrow> jsval \<Rightarrow> string list option" where
  "string_list E v = (case v of JArr xs \<Rightarrow> strings_of xs | _ \<Rightarrow> scalar_list_other E v)"

text \<open>A nullable enum column: \<open>undefined\<close> (inner \<open>None\<close>) or a name of the enum.\<close>

definition mediaType_arg :: "jsval \<Rightarrow> MediaType option option" where
  "mediaType_arg v =
     (case v of
        JUndefined \<Rightarrow> Some None
      | JStr s \<Rightarrow> (case MediaType_of s of None \<Rightarrow> None | Some m \<Rightarrow> Some (Some m))
      | _ \<Rightarrow> None)"

definition user_exists :: "store \<Rightarrow> string \<Rightarrow> bool" where
  "user_exists db uid = (List.find (\<lambda>u. u_id u = uid) (users db) \<noteq> None)"

text \<open>
  \<open>prisma.journal.create\<close> with \<open>taggedStudents: { connect: ids }\<close>: the arguments
  are checked against the schema, the teacher and every connected user must exist, and
  the new row gets a drawn id and the store's time as \<open>created_at\<close> and
  \<open>updated_at\<close>.
\<close>

definition prisma_journal_create ::
    "env \<Rightarrow> store \<Rightarrow> jsval \<Rightarrow> jsval \<Rightarrow> jsval \<Rightarrow> jsval \<Rightarrow> string \<Rightarrow> jsval list \<Rightarrow>
     js_error + (store \<times> Journal)" where
  "prisma_journal_create E db title content media mediaType teacherId ids =
     (case (required_string title, required_string content, string_list E media,
            mediaType_arg mediaType, strings_of ids) of
        (Some t, Some c, Some ms, Some mt, Some tagged) \<Rightarrow>
          if \<not> user_exists db teacherId then Inl PrismaForeignKeyViolation
          else if \<not> list_all (user_exists db) tagged then Inl PrismaRecordNotFound
          else if List.find (\<lambda>j. j_id j = uuid E) (journals db) \<noteq> None
          then Inl PrismaUniqueViolation
          else
            (let row = \<lparr>j_id = uuid E, j_title = t, j_content = c, j_media = ms,
                        j_mediaType = mt, j_teacherId = teacherId,
                        j_taggedStudents = remdups tagged,
                        j_created_at = db_now E, j_updated_at = db_now E\<rparr>
             in Inr (db\<lparr>journals := journals db @ [row]\<rparr>, row))
      | _ \<Rightarrow> Inl PrismaValidationError)"

text \<open>
  Writing one row back: \<open>update\<close> throws when no row has the id; the trigger
  refreshes \<open>updated_at\<close>.
\<close>

definition write_journal ::
    "env \<Rightarrow> store \<Rightarrow> string \<Rightarrow> (Journal \<Rightarrow> Journal) \<Rightarrow> js_error + (store \<times> Journal)" where
  "write_journal E db jid f =
     (case List.find (\<lambda>j. j_id j = jid) (journals db) of
        None \<Rightarrow> Inl PrismaRecordNotFound
      | Some j \<Rightarrow>
          (let row = (f j)\<lparr>j_updated_at := db_now E\<rparr>
           in Inr (db\<lparr>journals := map (\<lambda>x. if j_id x = jid then row else x) (journals db)\<rparr>, row)))"

text \<open>
  \<open>prisma.journal.update\<close> with \<open>taggedStudents: { set: ids }\<close>: the tagged
  students of the row become exactly the given users. The junction table refers to
  stored users only, so an id without a user either makes the call throw or is passed
  over.
\<close>

definition prisma_journal_update ::
    "env \<Rightarrow> store \<Rightarrow> string \<Rightarrow> jsval \<Rightarrow> jsval \<Rightarrow> jsval \<Rightarrow> jsval \<Rightarrow> jsval list \<Rightarrow>
     js_error + (store \<times> Journal)" where
  "prisma_journal_update E db jid title content media mediaType ids =
     (case (updated_string title, updated_string content, string_list E media,
            mediaType_arg mediaType, strings_of ids) of
        (Some t, Some c, Some ms, Some mt, Some tagged) \<Rightarrow>
          if set_rejects_missing E \<and> \<not> list_all (user_exists db) tagged
          then Inl PrismaRecordNotFound
          else write_journal E db jid
                 (\<lambda>j. j\<lparr>j_title := (case t of None \<Rightarrow> j_title j | Some x \<Rightarrow> x),
                         j_content := (case c of None \<Rightarrow> j_content j | Some x \<Rightarrow> x),
                         j_media := ms,
                         j_mediaType := (case mt of None \<Rightarrow> j_mediaType j | Some x \<Rightarrow> Some x),
                         j_taggedStudents := remdups (filter (user_exists db) tagged)\<rparr>)
      | _ \<Rightarrow> Inl PrismaValidationError)"


text \<open>\<open>prisma.journal.delete\<close>: throws when no row has the id.\<close>

definition prisma_journal_delete :: "store \<Rightarrow> string \<Rightarrow> js_error + store" where
  "prisma_journal_delete db jid =
     (case List.find (\<lambda>j. j_id j = jid) (journals db) of
        None \<Rightarrow> Inl PrismaRecordNotFound
      | Some j \<Rightarrow> Inr (db\<lparr>journals := filter (\<lambda>x. j_id x \<noteq> jid) (journals db)\<rparr>))"

subsection \<open>Handlers\<close>

text \<open>\<open>xs.map(id => ({ id }))\<close>: a TypeError unless \<open>xs\<close> is an array.\<close>

definition array_map_id :: "jsval \<Rightarrow> js_error + jsval list" where
  "array_map_id v = (case v of JArr xs \<Rightarrow> Inr xs | _ \<Rightarrow> Inl TypeError)"

definition createJournal :: "env \<Rightarrow> store \<Rightarrow> request \<Rightarrow> store \<times> response" where
  "createJournal E db req =
     (case user req of
        None \<Rightarrow> (db, failed E ''Journal creation failed'' TypeError)
      | Some u \<Rightarrow>
         (let title = req_body req ''title''; content = req_body req ''content'';
              media = req_body req ''media''; mediaType = req_body req ''mediaType'';
              taggedStudents = req_body req ''taggedStudents''
          in case (case taggedStudents of
                     JStr s \<Rightarrow> (case JSON_parse E s of None \<Rightarrow> Inl SyntaxError | Some v \<Rightarrow> Inr v)
                   | _ \<Rightarrow> Inr taggedStudents) of
               Inl e \<Rightarrow> (db, failed E ''Journal creation failed'' e)
             | Inr parsedTaggedStudents \<Rightarrow>
                (case optional_toUpperCase mediaType of
                   Inl e \<Rightarrow> (db, failed E ''Journal creation failed'' e)
                 | Inr mediaTypeUpper \<Rightarrow>
                    (case array_map_id parsedTaggedStudents of
                       Inl e \<Rightarrow> (db, failed E ''Journal creation failed'' e)
                     | Inr ids \<Rightarrow>
                        (case prisma_journal_create E db title content
                                (if truthy media then media else JArr []) mediaTypeUpper
                                (userId u) ids of
                           Inl e \<Rightarrow> (db, failed E ''Journal creation failed'' e)
                         | Inr (db', journal) \<Rightarrow>
                             (db', \<lparr>status = 201,
                                    body = [(''success'', JBool True),
                                            (''message'', JStr ''Journal created successfully''),
                                            (''journal'', Journal_json db' journal)]\<rparr>))))))"

definition getJournalById :: "env \<Rightarrow> store \<Rightarrow> request \<Rightarrow> store \<times> response" where
  "getJournalById E db req =
     (case prisma_journal_findUnique db (params_id req) of
        None \<Rightarrow>
          (db, \<lparr>status = 404,
                body = [(''success'', JBool False), (''message'', JStr ''Journal not found'')]\<rparr>)
      | Some journal \<Rightarrow>
          (db, \<lparr>status = 200,
                body = [(''success'', JBool True),
                        (''message'', JStr ''Journal fetched successfully''),
                        (''journal'', Journal_json db journal)]\<rparr>))"

definition updateJournal :: "env \<Rightarrow> store \<Rightarrow> request \<Rightarrow> store \<times> response" where
  "updateJournal E db req =
     (let title = req_body req ''title''; content = req_body req ''content'';
          media = req_body req ''media''; mediaType = req_body req ''mediaType'';
          taggedStudents = req_body req ''taggedStudents''
      in case optional_toUpperCase mediaType of
           Inl e \<Rightarrow> (db, failed E ''Failed to update journal'' e)
         | Inr mediaTypeUpper \<Rightarrow>
            (case array_map_id taggedStudents of
               Inl e \<Rightarrow> (db, failed E ''Failed to update journal'' e)
             | Inr ids \<Rightarrow>
                (case prisma_journal_update E db (params_id req) title content
                        (if truthy media then media else JArr []) mediaTypeUpper ids of
                   Inl e \<Rightarrow> (db, failed E ''Failed to update journal'' e)
                 | Inr (db', journal) \<Rightarrow>
                     (db', \<lparr>status = 200,
                            body = [(''success'', JBool True),
                                    (''message'', JStr ''Journal updated successfully''),
                                    (''journal'', Journal_json db' journal)]\<rparr>))))"


definition deleteJournal :: "env \<Rightarrow> store \<Rightarrow> request \<Rightarrow> store \<times> response" where
  "deleteJournal E db req =
     (case prisma_journal_delete db (params_id req) of
        Inl e \<Rightarrow> (db, failed E ''Failed to delete journal'' e)
      | Inr db' \<Rightarrow>
          (db', \<lparr>status = 200,
                 body = [(''success'', JBool True),
                         (''message'', JStr ''Journal deleted successfully'')]\<rparr>))"

definition getTeacherFeed :: "env \<Rightarrow> store \<Rightarrow> request \<Rightarrow> store \<times> response" where
  "getTeacherFeed E db req =
     (case user req of
        None \<Rightarrow> (db, failed E ''Failed to get teacher feed'' TypeError)
      | Some u \<Rightarrow>
          (case prisma_journal_findMany db (teacherId_equals (userId u)) False of
             Inl e \<Rightarrow> (db, failed E ''Failed to get teacher feed'' e)
           | Inr found \<Rightarrow>
               (db, \<lparr>status = 200,
                     body = [(''success'', JBool True),
                             (''message'', JStr ''Teacher feed fetched successfully''),
                             (''journals'', JArr (map (Journal_json db) found))]\<rparr>)))"

definition getStudentFeed :: "env \<Rightarrow> store \<Rightarrow> request \<Rightarrow> store \<times> response" where
  "getStudentFeed E db req =
     (case user req of
        None \<Rightarrow> (db, failed E ''Failed to get student feed'' TypeError)
      | Some u \<Rightarrow>
          (case prisma_journal_findMany db
                  (AND [taggedStudents_some_id (userId u),
                        OR [publish_at_null, publish_at_lte (now E)]]) False of
             Inl e \<Rightarrow> (db, failed E ''Failed to get student feed'' e)
           | Inr found \<Rightarrow>
               (db, \<lparr>status = 200,
                     body = [(''success'', JBool True),
                             (''message'', JStr ''Student feed fetched successfully''),
                             (''journals'', JArr (map (Journal_json db) found))]\<rparr>)))"

subsection \<open>The role-dispatching feed of the user routes\<close>

definition invalid_role_message :: string where
  "invalid_role_message =
     ''Invalid user role. Must be either '' @ [CHR 0x27] @ ''teacher'' @ [CHR 0x27]
     @ '' or '' @ [CHR 0x27] @ ''student'' @ [CHR 0x27]"

definition feed :: "env \<Rightarrow> store \<Rightarrow> request \<Rightarrow> store \<times> response" where
  "feed E db req =
     (case user req of
        None \<Rightarrow> (db, failed E ''Failed to get feed'' TypeError)
      | Some c \<Rightarrow>
         (case prisma_user_findUnique_id db (userId c) of
            None \<Rightarrow>
              (db, \<lparr>status = 404,
                    body = [(''success'', JBool False), (''message'', JStr ''User not found'')]\<rparr>)
          | Some u \<Rightarrow>
              if u_role u = TEACHER then
                (case prisma_journal_findMany db (teacherId_equals (userId c)) True of
                   Inl e \<Rightarrow> (db, failed E ''Failed to get feed'' e)
                 | Inr found \<Rightarrow>
                     (db, \<lparr>status = 200,
                           body = [(''success'', JBool True),
                                   (''message'', JStr ''Teacher feed fetched successfully''),
                                   (''journals'', JArr (map (Journal_json db) found))]\<rparr>))
              else if u_role u = STUDENT then
                (case prisma_journal_findMany db
                        (AND [taggedStudents_some_id (userId c),
                              OR [publish_at_null, publish_at_lte (now E)]]) True of
                   Inl e \<Rightarrow> (db, failed E ''Failed to get feed'' e)
                 | Inr found \<Rightarrow>
                     (db, \<lparr>status = 200,
                           body = [(''success'', JBool True),
                                   (''message'', JStr ''Student feed fetched successfully''),
                                   (''journals'', JArr (map (Journal_json db) found))]\<rparr>))
              else
                (db, \<lparr>status = 400,
                      body = [(''success'', JBool False),
                              (''message'', JStr invalid_role_message),
                              (''userRole'', JStr (Role_name (u_role u)))]\<rparr>)))"

text \<open>
  The routes \<open>GET /user/feed\<close>, \<open>GET /user/student\<close> and
  \<open>DELETE /journal/:id\<close>.
\<close>

definition route_user_feed :: "env \<Rightarrow> store \<Rightarrow> request \<Rightarrow> store \<times> response" where
  "route_user_feed E = run [authenticate E] (feed E)"

definition route_user_student :: "env \<Rightarrow> store \<Rightarrow> request \<Rightarrow> store \<times> response" where
  "route_user_student E = run [authenticate E, restrictTo [''student'']] (getStudentFeed E)"

definition route_journal_delete :: "env \<Rightarrow> store \<Rightarrow> request \<Rightarrow> store \<times> response" where
  "route_journal_delete E = run [authenticate E, restrictTo [''teacher'']] (deleteJournal E)"

section \<open>A concrete school\<close>

text \<open>
  One environment, one store and a few requests, on which the theorems below are
  instantiated. The clock stands at 2024-01-01T00:00:00.000Z; the teacher \<open>u1\<close> owns
  four journals: \<open>j1\<close>, \<open>j2\<close> and \<open>j3\<close> tag the student \<open>u2\<close>
  (\<open>j1\<close> also \<open>u3\<close>), and \<open>j4\<close> tags only \<open>u3\<close>.
\<close>

definition teacher_claims :: claims where
  "teacher_claims =
     \<lparr>userId = ''u1'', t_name = Some ''Tina'', t_email = ''tina@school.example'',
      t_role = Some ''TEACHER''\<rparr>"

definition student_claims :: claims where
  "student_claims =
     \<lparr>userId = ''u2'', t_name = Some ''Sam'', t_email = ''sam@school.example'',
      t_role = Some ''student''\<rparr>"

definition school_env :: env where
  "school_env =
     \<lparr>jwt_verify = (\<lambda>tok. if tok = ''tok-teacher'' then Some teacher_claims
                           else if tok = ''tok-student'' then Some student_claims else None),
      jwt_sign = (\<lambda>payload expiresIn. ''signed''),
      bcrypt_hash = (\<lambda>pw. ''hash:'' @ pw),
      bcrypt_compare = (\<lambda>pw h. h = ''hash:'' @ pw),
      JSON_parse = (\<lambda>s. if s = ''[]'' then Some (JArr []) else None),
      date_parse_other = (\<lambda>s. None),
      date_of_object = (\<lambda>v. None),
      now = 1704067200000,
      db_now = 1704067200000,
      uuid = ''u9'',
      error_message = (\<lambda>e. ''error''),
      scalar_list_other = (\<lambda>v. None),
      set_rejects_missing = True\<rparr>"

definition tina :: User where
  "tina = \<lparr>u_id = ''u1'', u_name = Some ''Tina'', u_email = ''tina@school.example'',
           u_password = ''hash:chalk'', u_role = TEACHER,
           u_created_at = 1700000000000, u_updated_at = 1700000000000\<rparr>"

definition sam :: User where
  "sam = \<lparr>u_id = ''u2'', u_name = Some ''Sam'', u_email = ''sam@school.example'',
          u_password = ''hash:pencil'', u_role = STUDENT,
          u_created_at = 1700000000000, u_updated_at = 1700000000000\<rparr>"

definition sue :: User where
  "sue = \<lparr>u_id = ''u3'', u_name = None, u_email = ''sue@school.example'',
          u_password = ''hash:eraser'', u_role = STUDENT,
          u_created_at = 1700000000000, u_updated_at = 1700000000000\<rparr>"

definition ada :: User where
  "ada = \<lparr>u_id = ''u4'', u_name = Some ''Ada'', u_email = ''ada@school.example'',
          u_password = ''hash:root'', u_role = ADMIN,
          u_created_at = 1700000000000, u_updated_at = 1700000000000\<rparr>"

definition j1 :: Journal where
  "j1 = \<lparr>j_id = ''j1'', j_title = ''Algebra'', j_content = ''Groups'', j_media = [],
         j_mediaType = None, j_teacherId = ''u1'', j_taggedStudents = [''u2'', ''u3''],
         j_created_at = 1704060000000, j_updated_at = 1704060000000\<rparr>"

definition j2 :: Journal where
  "j2 = \<lparr>j_id = ''j2'', j_title = ''Biology'', j_content = ''Cells'', j_media = [],
         j_mediaType = None, j_teacherId = ''u1'', j_taggedStudents = [''u2''],
         j_created_at = 1704060000001, j_updated_at = 1704060000001\<rparr>"

definition j3 :: Journal where
  "j3 = \<lparr>j_id = ''j3'', j_title = ''Chemistry'', j_content = ''Salts'', j_media = [],
         j_mediaType = None, j_teacherId = ''u1'', j_taggedStudents = [''u2''],
         j_created_at = 1704060000002, j_updated_at = 1704060000002\<rparr>"

definition j4 :: Journal where
  "j4 = \<lparr>j_id = ''j4'', j_title = ''Drama'', j_content = ''Masks'', j_media = [],
         j_mediaType = None, j_teacherId = ''u1'', j_taggedStudents = [''u3''],
         j_created_at = 1704060000003, j_updated_at = 1704060000003\<rparr>"

definition school :: store where
  "school = \<lparr>users = [tina, sam, sue, ada], journals = [j1, j2, j3, j4]\<rparr>"

definition no_fields :: "string \<Rightarrow> jsval" where
  "no_fields = (\<lambda>k. JUndefined)"

definition anonymous_request :: request where
  "anonymous_request =
     \<lparr>authorization = None, params_id = ''j1'', req_body = no_fields, user = None\<rparr>"

definition bearer :: "string \<Rightarrow> request" where
  "bearer tok = anonymous_request\<lparr>authorization := Some (''Bearer '' @ tok)\<rparr>"

definition as_user :: "claims \<Rightarrow> request" where
  "as_user c = anonymous_request\<lparr>user := Some c\<rparr>"

text \<open>A request body given by its fields, and a request that carries it.\<close>

definition body_of :: "(string \<times> jsval) list \<Rightarrow> string \<Rightarrow> jsval" where
  "body_of kvs k = (case map_of kvs k of None \<Rightarrow> JUndefined | Some v \<Rightarrow> v)"

definition post :: "(string \<times> jsval) list \<Rightarrow> request" where
  "post kvs = anonymous_request\<lparr>req_body := body_of kvs\<rparr>"


section \<open>Facts about strings and roles\<close>

lemma toUpperCase_char_idem: "toUpperCase_char (toUpperCase_char c) = toUpperCase_char c"
proof (cases "97 \<le> (of_char c :: nat) \<and> (of_char c :: nat) \<le> 122")
  case True
  then have "(of_char c - 32 :: nat) mod 256 = of_char c - 32"
    by (intro mod_less) arith
  then have "(of_char (char_of (of_char c - 32 :: nat)) :: nat) = of_char c - 32"
    by simp
  moreover from True have "\<not> (97 \<le> (of_char c - 32 :: nat))"
    by arith
  ultimately show ?thesis
    using True by (simp add: toUpperCase_char_def Let_def)
next
  case False
  then show ?thesis
    by (auto simp add: toUpperCase_char_def Let_def)
qed

lemma toUpperCase_idem: "toUpperCase (toUpperCase s) = toUpperCase s"
  by (simp add: toUpperCase_def toUpperCase_char_idem)

lemma toUpperCase_teacher: "toUpperCase ''teacher'' = ''TEACHER''"
  by code_simp

lemma toUpperCase_student: "toUpperCase ''student'' = ''STUDENT''"
  by code_simp

lemma toUpperCase_upper:
  "toUpperCase ''STUDENT'' = ''STUDENT''" "toUpperCase ''TEACHER'' = ''TEACHER''"
  "toUpperCase ''ADMIN'' = ''ADMIN''"
  by code_simp+

lemma toUpperCase_Role_name: "toUpperCase (Role_name r) = Role_name r"
  by (cases r) (simp_all add: toUpperCase_upper)

lemma Role_of_Role_name: "Role_of (Role_name r) = Some r"
  by (cases r) (simp_all add: Role_of_def)

section \<open>Access control\<close>

text \<open>
  Claim C3. On a route whose first middleware is \<open>authenticate\<close>, a request without
  \<open>Authorization\<close> header, or with a header that does not start with \<open>Bearer \<close>, is
  answered 401 "Unauthorized - No token provided"; a request whose token (the second
  piece of the header split at spaces) fails \<open>jwt.verify\<close> is answered 401
  "Invalid Token". In each case the answer is the same for every list \<open>ms\<close> of later
  middlewares and every handler \<open>h\<close>, and the store is returned as it was: nothing
  downstream runs.
\<close>

theorem authenticate_unauthorized:
  "(authorization req = None \<longrightarrow>
      run (authenticate E # ms) h db req =
        (db, \<lparr>status = 401, body = [(''success'', JBool False),
               (''message'', JStr ''Unauthorized - No token provided'')]\<rparr>))
   \<and> (\<forall>a. authorization req = Some a \<and> take 7 a \<noteq> ''Bearer '' \<longrightarrow>
      run (authenticate E # ms) h db req =
        (db, \<lparr>status = 401, body = [(''success'', JBool False),
               (''message'', JStr ''Unauthorized - No token provided'')]\<rparr>))
   \<and> (\<forall>a tok. authorization req = Some a \<and> take 7 a = ''Bearer ''
        \<and> index (split CHR '' '' a) 1 = Some tok \<and> jwt_verify E tok = None \<longrightarrow>
      run (authenticate E # ms) h db req =
        (db, \<lparr>status = 401, body = [(''success'', JBool False),
               (''message'', JStr ''Invalid Token'')]\<rparr>))"
  by (auto simp: authenticate_def)

text \<open>
  The three cases on the route \<open>DELETE /journal/:id\<close> of the concrete school: no
  header, a \<open>Basic\<close> header, and a bearer token that does not verify.
\<close>

theorem authenticate_unauthorized_witness:
  "run (authenticate school_env # [restrictTo [''teacher'']]) (deleteJournal school_env) school
       anonymous_request =
     (school, \<lparr>status = 401, body = [(''success'', JBool False),
               (''message'', JStr ''Unauthorized - No token provided'')]\<rparr>)
   \<and> run (authenticate school_env # [restrictTo [''teacher'']]) (deleteJournal school_env) school
       (anonymous_request\<lparr>authorization := Some ''Basic dGluYTpjaGFsaw==''\<rparr>) =
     (school, \<lparr>status = 401, body = [(''success'', JBool False),
               (''message'', JStr ''Unauthorized - No token provided'')]\<rparr>)
   \<and> run (authenticate school_env # [restrictTo [''teacher'']]) (deleteJournal school_env) school
       (bearer ''forged'') =
     (school, \<lparr>status = 401, body = [(''success'', JBool False),
               (''message'', JStr ''Invalid Token'')]\<rparr>)"
proof -
  have none: "authorization anonymous_request = None"
    by (simp add: anonymous_request_def)
  have basic: "authorization (anonymous_request\<lparr>authorization := Some ''Basic dGluYTpjaGFsaw==''\<rparr>)
      = Some ''Basic dGluYTpjaGFsaw=='' \<and> take 7 ''Basic dGluYTpjaGFsaw=='' \<noteq> ''Bearer ''"
    by simp
  have forged: "authorization (bearer ''forged'') = Some ''Bearer forged''
      \<and> take 7 ''Bearer forged'' = ''Bearer ''
      \<and> index (split CHR '' '' ''Bearer forged'') 1 = Some ''forged''
      \<and> jwt_verify school_env ''forged'' = None"
    by (simp add: bearer_def index_def school_env_def)
  from none basic forged show ?thesis
    using authenticate_unauthorized [of anonymous_request school_env "[restrictTo [''teacher'']]"
            "deleteJournal school_env" school]
          authenticate_unauthorized [of "anonymous_request\<lparr>authorization := Some ''Basic dGluYTpjaGFsaw==''\<rparr>"
            school_env "[restrictTo [''teacher'']]" "deleteJournal school_env" school]
          authenticate_unauthorized [of "bearer ''forged''" school_env "[restrictTo [''teacher'']]"
            "deleteJournal school_env" school]
    by blast
qed

text \<open>
  Claim C4. The guard \<open>restrictTo(...allowedRoles)\<close> answers 401 "User not
  authenticated" when the request carries no identity. When it carries one whose role,
  uppercased, is not among the uppercased permitted roles (or which has no role), it
  answers 403 with the message "You do not have permission to perform this action.
  Required role: " followed by the permitted roles joined by " or ". In particular a
  token whose role uppercases to STUDENT, sent to a route guarded by
  \<open>authenticate, restrictTo("teacher")\<close>, is answered 403 before any later
  middleware or handler runs.
\<close>

theorem restrictTo_forbidden:
  "(user req = None \<longrightarrow>
      restrictTo allowedRoles req =
        Respond \<lparr>status = 401, body = [(''success'', JBool False),
               (''message'', JStr ''User not authenticated'')]\<rparr>)
   \<and> (\<forall>u. user req = Some u
         \<and> (\<forall>r. t_role u = Some r \<longrightarrow> toUpperCase r \<notin> set (map toUpperCase allowedRoles)) \<longrightarrow>
      restrictTo allowedRoles req =
        Respond \<lparr>status = 403, body = [(''success'', JBool False),
               (''message'', JStr (''You do not have permission to perform this action. Required role: ''
                                   @ join '' or '' allowedRoles)),
               (''userRole'', (case t_role u of None \<Rightarrow> JUndefined | Some r \<Rightarrow> JStr (toUpperCase r)))]\<rparr>)
   \<and> (\<forall>a tok c r. authorization req = Some a \<and> take 7 a = ''Bearer ''
         \<and> index (split CHR '' '' a) 1 = Some tok \<and> jwt_verify E tok = Some c
         \<and> t_role c = Some r \<and> toUpperCase r = ''STUDENT'' \<longrightarrow>
      run (authenticate E # restrictTo [''teacher''] # ms) h db req =
        (db, \<lparr>status = 403, body = [(''success'', JBool False),
               (''message'', JStr ''You do not have permission to perform this action. Required role: teacher''),
               (''userRole'', JStr ''STUDENT'')]\<rparr>))"
proof (intro conjI allI impI)
  assume "user req = None"
  then show "restrictTo allowedRoles req =
        Respond \<lparr>status = 401, body = [(''success'', JBool False),
               (''message'', JStr ''User not authenticated'')]\<rparr>"
    by (simp add: restrictTo_def)
next
  fix u
  assume "user req = Some u
         \<and> (\<forall>r. t_role u = Some r \<longrightarrow> toUpperCase r \<notin> set (map toUpperCase allowedRoles))"
  then show "restrictTo allowedRoles req =
        Respond \<lparr>status = 403, body = [(''success'', JBool False),
               (''message'', JStr (''You do not have permission to perform this action. Required role: ''
                                   @ join '' or '' allowedRoles)),
               (''userRole'', (case t_role u of None \<Rightarrow> JUndefined | Some r \<Rightarrow> JStr (toUpperCase r)))]\<rparr>"
    by (auto simp: restrictTo_def split: option.splits)
next
  fix a tok c r
  assume "authorization req = Some a \<and> take 7 a = ''Bearer ''
         \<and> index (split CHR '' '' a) 1 = Some tok \<and> jwt_verify E tok = Some c
         \<and> t_role c = Some r \<and> toUpperCase r = ''STUDENT''"
  then have "authenticate E req =
      Next (req\<lparr>user := Some (c\<lparr>t_role := Some ''STUDENT''\<rparr>)\<rparr>)"
    by (auto simp: authenticate_def)
  moreover have "restrictTo [''teacher''] (req\<lparr>user := Some (c\<lparr>t_role := Some ''STUDENT''\<rparr>)\<rparr>) =
      Respond \<lparr>status = 403, body = [(''success'', JBool False),
               (''message'', JStr ''You do not have permission to perform this action. Required role: teacher''),
               (''userRole'', JStr ''STUDENT'')]\<rparr>"
    by (simp add: restrictTo_def toUpperCase_upper toUpperCase_teacher)
  ultimately show "run (authenticate E # restrictTo [''teacher''] # ms) h db req =
        (db, \<lparr>status = 403, body = [(''success'', JBool False),
               (''message'', JStr ''You do not have permission to perform this action. Required role: teacher''),
               (''userRole'', JStr ''STUDENT'')]\<rparr>)"
    by simp
qed

text \<open>
  In the concrete school: a request without identity, the student Sam against the
  roles teacher and admin, and Sam's token (role claim \<open>student\<close>) on
  \<open>DELETE /journal/:id\<close>.
\<close>

theorem restrictTo_forbidden_witness:
  "restrictTo [''teacher''] anonymous_request =
     Respond \<lparr>status = 401, body = [(''success'', JBool False),
               (''message'', JStr ''User not authenticated'')]\<rparr>
   \<and> restrictTo [''teacher'', ''admin''] (as_user student_claims) =
     Respond \<lparr>status = 403, body = [(''success'', JBool False),
               (''message'', JStr ''You do not have permission to perform this action. Required role: teacher or admin''),
               (''userRole'', JStr ''STUDENT'')]\<rparr>
   \<and> run (authenticate school_env # restrictTo [''teacher''] # []) (deleteJournal school_env)
         school (bearer ''tok-student'') =
        (school, \<lparr>status = 403, body = [(''success'', JBool False),
               (''message'', JStr ''You do not have permission to perform this action. Required role: teacher''),
               (''userRole'', JStr ''STUDENT'')]\<rparr>)"
proof -
  have up: "toUpperCase ''admin'' = ''ADMIN''"
    by code_simp
  have a: "user anonymous_request = None"
    by (simp add: anonymous_request_def)
  have b: "user (as_user student_claims) = Some student_claims
      \<and> (\<forall>r. t_role student_claims = Some r \<longrightarrow>
            toUpperCase r \<notin> set (map toUpperCase [''teacher'', ''admin'']))"
    by (simp add: as_user_def student_claims_def toUpperCase_student toUpperCase_teacher up)
  have c: "authorization (bearer ''tok-student'') = Some ''Bearer tok-student''
      \<and> take 7 ''Bearer tok-student'' = ''Bearer ''
      \<and> index (split CHR '' '' ''Bearer tok-student'') 1 = Some ''tok-student''
      \<and> jwt_verify school_env ''tok-student'' = Some student_claims
      \<and> t_role student_claims = Some ''student'' \<and> toUpperCase ''student'' = ''STUDENT''"
    by (simp add: bearer_def index_def school_env_def student_claims_def toUpperCase_student)
  have d: "(case t_role student_claims of None \<Rightarrow> JUndefined | Some r \<Rightarrow> JStr (toUpperCase r))
      = JStr ''STUDENT''"
    by (simp add: student_claims_def toUpperCase_student)
  have w1: "restrictTo [''teacher''] anonymous_request =
     Respond \<lparr>status = 401, body = [(''success'', JBool False),
               (''message'', JStr ''User not authenticated'')]\<rparr>"
    using a restrictTo_forbidden [of anonymous_request "[''teacher'']" school_env "[]"
            "deleteJournal school_env" school]
    by blast
  have "restrictTo [''teacher'', ''admin''] (as_user student_claims) =
        Respond \<lparr>status = 403, body = [(''success'', JBool False),
               (''message'', JStr (''You do not have permission to perform this action. Required role: ''
                                   @ join '' or '' [''teacher'', ''admin''])),
               (''userRole'', (case t_role student_claims of None \<Rightarrow> JUndefined
                               | Some r \<Rightarrow> JStr (toUpperCase r)))]\<rparr>"
    using b restrictTo_forbidden [of "as_user student_claims" "[''teacher'', ''admin'']" school_env "[]"
            "deleteJournal school_env" school]
    by blast
  then have w2: "restrictTo [''teacher'', ''admin''] (as_user student_claims) =
     Respond \<lparr>status = 403, body = [(''success'', JBool False),
               (''message'', JStr ''You do not have permission to perform this action. Required role: teacher or admin''),
               (''userRole'', JStr ''STUDENT'')]\<rparr>"
    by (simp add: d)
  have w3: "run (authenticate school_env # restrictTo [''teacher''] # []) (deleteJournal school_env)
         school (bearer ''tok-student'') =
        (school, \<lparr>status = 403, body = [(''success'', JBool False),
               (''message'', JStr ''You do not have permission to perform this action. Required role: teacher''),
               (''userRole'', JStr ''STUDENT'')]\<rparr>)"
    using c restrictTo_forbidden [of "bearer ''tok-student''" "[''teacher'']" school_env "[]"
            "deleteJournal school_env" school]
    by blast
  from w1 w2 w3 show ?thesis
    by blast
qed

section \<open>Feeds\<close>

lemma matches_teacher_filter:
  "matches (teacherId_equals uid) = (\<lambda>j. j_teacherId j = uid)"
  by (rule ext) simp

lemma findMany_student_filter:
  "prisma_journal_findMany db
     (AND [taggedStudents_some_id uid, OR [publish_at_null, publish_at_lte t]]) desc
   = Inl PrismaValidationError"
  by (simp add: prisma_journal_findMany_def)

lemma findMany_teacher_filter:
  "prisma_journal_findMany db (teacherId_equals uid) True
   = Inr (rev (sort_key j_created_at (filter (\<lambda>j. j_teacherId j = uid) (journals db))))"
  by (simp add: prisma_journal_findMany_def matches_teacher_filter del: matches.simps)

text \<open>
  Claim C1 asks the student feed for the journals that tag the caller and whose
  \<open>publish_at\<close> is null or has passed. \<open>getStudentFeed\<close> and the student branch of
  \<open>GET /user/feed\<close> build that filter, but \<open>model Journal\<close> of
  \<open>prisma/schema.prisma\<close> declares no \<open>publish_at\<close>: \<open>findMany\<close> throws on the
  filter before any row is read, and the \<open>catch\<close> block answers 500. So for every
  caller, store and clock \<open>getStudentFeed\<close> answers 500 and returns no journal, also
  on the route \<open>GET /user/student\<close> for a verified token whose role uppercases to
  STUDENT, and so does \<open>GET /user/feed\<close> for a user whose stored role is STUDENT.
\<close>

theorem student_feed_fails:
  "(\<forall>c. user req = Some c \<longrightarrow>
      getStudentFeed E db req =
        (db, failed E ''Failed to get student feed'' PrismaValidationError))
   \<and> status (snd (getStudentFeed E db req)) = 500
   \<and> fst (getStudentFeed E db req) = db
   \<and> (\<forall>c u. user req = Some c \<and> prisma_user_findUnique_id db (userId c) = Some u
          \<and> u_role u = STUDENT \<longrightarrow>
        feed E db req = (db, failed E ''Failed to get feed'' PrismaValidationError))
   \<and> (\<forall>a tok c r. authorization req = Some a \<and> take 7 a = ''Bearer ''
          \<and> index (split CHR '' '' a) 1 = Some tok \<and> jwt_verify E tok = Some c
          \<and> t_role c = Some r \<and> toUpperCase r = ''STUDENT'' \<longrightarrow>
        route_user_student E db req =
          (db, failed E ''Failed to get student feed'' PrismaValidationError))"
proof (intro conjI allI impI)
  fix c
  assume "user req = Some c"
  then show "getStudentFeed E db req =
        (db, failed E ''Failed to get student feed'' PrismaValidationError)"
    by (simp add: getStudentFeed_def findMany_student_filter)
next
  show "status (snd (getStudentFeed E db req)) = 500"
    by (cases "user req") (simp_all add: getStudentFeed_def findMany_student_filter failed_def)
next
  show "fst (getStudentFeed E db req) = db"
    by (cases "user req") (simp_all add: getStudentFeed_def findMany_student_filter)
next
  fix c u
  assume "user req = Some c \<and> prisma_user_findUnique_id db (userId c) = Some u
          \<and> u_role u = STUDENT"
  then show "feed E db req = (db, failed E ''Failed to get feed'' PrismaValidationError)"
    by (simp add: feed_def findMany_student_filter)
next
  fix a tok c r
  assume A: "authorization req = Some a \<and> take 7 a = ''Bearer ''
          \<and> index (split CHR '' '' a) 1 = Some tok \<and> jwt_verify E tok = Some c
          \<and> t_role c = Some r \<and> toUpperCase r = ''STUDENT''"
  then have "authenticate E req = Next (req\<lparr>user := Some (c\<lparr>t_role := Some ''STUDENT''\<rparr>)\<rparr>)"
    by (auto simp: authenticate_def)
  moreover have "restrictTo [''student''] (req\<lparr>user := Some (c\<lparr>t_role := Some ''STUDENT''\<rparr>)\<rparr>) =
      Next (req\<lparr>user := Some (c\<lparr>t_role := Some ''STUDENT''\<rparr>)\<rparr>)"
    by (simp add: restrictTo_def toUpperCase_upper toUpperCase_student)
  ultimately show "route_user_student E db req =
          (db, failed E ''Failed to get student feed'' PrismaValidationError)"
    by (simp add: route_user_student_def getStudentFeed_def findMany_student_filter)
qed

text \<open>
  Sam is a stored student whom \<open>j1\<close>, \<open>j2\<close> and \<open>j3\<close> tag: both feeds answer
  him 500, with his identity attached and through the route with his token.
\<close>

theorem student_feed_fails_witness:
  "getStudentFeed school_env school (as_user student_claims) =
     (school, \<lparr>status = 500,
               body = [(''success'', JBool False),
                       (''message'', JStr ''Failed to get student feed''),
                       (''error'', JStr ''error'')]\<rparr>)
   \<and> feed school_env school (as_user student_claims) =
     (school, \<lparr>status = 500,
               body = [(''success'', JBool False),
                       (''message'', JStr ''Failed to get feed''),
                       (''error'', JStr ''error'')]\<rparr>)
   \<and> route_user_student school_env school (bearer ''tok-student'') =
     (school, \<lparr>status = 500,
               body = [(''success'', JBool False),
                       (''message'', JStr ''Failed to get student feed''),
                       (''error'', JStr ''error'')]\<rparr>)
   \<and> userId student_claims \<in> set (j_taggedStudents j1)"
proof -
  have u: "user (as_user student_claims) = Some student_claims"
    by (simp add: as_user_def)
  have s: "user (as_user student_claims) = Some student_claims
      \<and> prisma_user_findUnique_id school (userId student_claims) = Some sam \<and> u_role sam = STUDENT"
    by (simp add: as_user_def prisma_user_findUnique_id_def school_def student_claims_def
        tina_def sam_def)
  have tok: "authorization (bearer ''tok-student'') = Some ''Bearer tok-student''
      \<and> take 7 ''Bearer tok-student'' = ''Bearer ''
      \<and> index (split CHR '' '' ''Bearer tok-student'') 1 = Some ''tok-student''
      \<and> jwt_verify school_env ''tok-student'' = Some student_claims
      \<and> t_role student_claims = Some ''student'' \<and> toUpperCase ''student'' = ''STUDENT''"
    by (simp add: bearer_def index_def school_env_def student_claims_def toUpperCase_student)
  have f: "failed school_env msg PrismaValidationError =
      \<lparr>status = 500,
       body = [(''success'', JBool False), (''message'', JStr msg), (''error'', JStr ''error'')]\<rparr>"
    for msg
    by (simp add: failed_def school_env_def)
  note w1 = student_feed_fails [of "as_user student_claims" school_env school,
              THEN conjunct1, rule_format, OF u]
  note w2 = student_feed_fails [of "as_user student_claims" school_env school,
              THEN conjunct2, THEN conjunct2, THEN conjunct2, THEN conjunct1, rule_format, OF s]
  note w3 = student_feed_fails [of "bearer ''tok-student''" school_env school,
              THEN conjunct2, THEN conjunct2, THEN conjunct2, THEN conjunct2, rule_format, OF tok]
  have t: "userId student_claims \<in> set (j_taggedStudents j1)"
    by (simp add: student_claims_def j1_def)
  from w1 w2 w3 t show ?thesis
    unfolding f
    by (intro conjI)
qed

text \<open>
  Claim C8. \<open>GET /user/feed\<close> runs \<open>feed\<close> on the identity that \<open>authenticate\<close>
  attached. \<open>feed\<close> looks the user up in the store by \<open>userId\<close>: no row gives 404
  "User not found"; a stored role TEACHER gives 200 with the journals the user owns,
  newest first; any other stored role but STUDENT gives 400 with the stored role as
  \<open>userRole\<close>. The role claim of the token plays no part: replacing it by any
  \<open>r\<close> leaves the answer unchanged. For a stored role STUDENT the claim asks for the
  student feed; the filter of that branch names \<open>publish_at\<close>, which
  \<open>model Journal\<close> does not declare, so \<open>findMany\<close> throws and the answer is 500
  "Failed to get feed".
\<close>

theorem feed_dispatch:
  "(\<forall>a tok c. authorization req = Some a \<and> take 7 a = ''Bearer ''
        \<and> index (split CHR '' '' a) 1 = Some tok \<and> jwt_verify E tok = Some c \<longrightarrow>
      route_user_feed E db req =
        feed E db (req\<lparr>user := Some (c\<lparr>t_role := map_option toUpperCase (t_role c)\<rparr>)\<rparr>))
   \<and> (\<forall>c. user req = Some c \<and> prisma_user_findUnique_id db (userId c) = None \<longrightarrow>
        feed E db req =
          (db, \<lparr>status = 404,
                body = [(''success'', JBool False), (''message'', JStr ''User not found'')]\<rparr>))
   \<and> (\<forall>c u. user req = Some c \<and> prisma_user_findUnique_id db (userId c) = Some u
          \<and> u_role u = TEACHER \<longrightarrow>
        feed E db req =
          (db, \<lparr>status = 200,
                body = [(''success'', JBool True),
                        (''message'', JStr ''Teacher feed fetched successfully''),
                        (''journals'', JArr (map (Journal_json db)
                           (rev (sort_key j_created_at
                             (filter (\<lambda>j. j_teacherId j = userId c) (journals db))))))]\<rparr>))
   \<and> (\<forall>c u. user req = Some c \<and> prisma_user_findUnique_id db (userId c) = Some u
          \<and> u_role u = STUDENT \<longrightarrow>
        feed E db req =
          (db, \<lparr>status = 500,
                body = [(''success'', JBool False),
                        (''message'', JStr ''Failed to get feed''),
                        (''error'', JStr (error_message E PrismaValidationError))]\<rparr>))
   \<and> (\<forall>c u. user req = Some c \<and> prisma_user_findUnique_id db (userId c) = Some u
          \<and> u_role u \<noteq> TEACHER \<and> u_role u \<noteq> STUDENT \<longrightarrow>
        feed E db req =
          (db, \<lparr>status = 400,
                body = [(''success'', JBool False),
                        (''message'', JStr invalid_role_message),
                        (''userRole'', JStr (Role_name (u_role u)))]\<rparr>))
   \<and> (\<forall>c r. user req = Some c \<longrightarrow>
        feed E db (req\<lparr>user := Some (c\<lparr>t_role := r\<rparr>)\<rparr>) = feed E db req)"
proof (intro conjI allI impI)
  fix a tok c
  assume "authorization req = Some a \<and> take 7 a = ''Bearer ''
        \<and> index (split CHR '' '' a) 1 = Some tok \<and> jwt_verify E tok = Some c"
  then show "route_user_feed E db req =
        feed E db (req\<lparr>user := Some (c\<lparr>t_role := map_option toUpperCase (t_role c)\<rparr>)\<rparr>)"
    by (auto simp: route_user_feed_def authenticate_def)
qed (auto simp: feed_def findMany_teacher_filter findMany_student_filter failed_def
       split: option.splits)

text \<open>
  The teacher's token, an identity without a row, Sam, an identity whose token says
  TEACHER while the store says ADMIN, and Sam with a forged TEACHER claim.
\<close>

theorem feed_dispatch_witness:
  "route_user_feed school_env school (bearer ''tok-teacher'') =
     (school, \<lparr>status = 200,
               body = [(''success'', JBool True),
                       (''message'', JStr ''Teacher feed fetched successfully''),
                       (''journals'', JArr (map (Journal_json school) [j4, j3, j2, j1]))]\<rparr>)
   \<and> feed school_env school (as_user (teacher_claims\<lparr>userId := ''u7''\<rparr>)) =
     (school, \<lparr>status = 404,
               body = [(''success'', JBool False), (''message'', JStr ''User not found'')]\<rparr>)
   \<and> feed school_env school (as_user student_claims) =
     (school, \<lparr>status = 500,
               body = [(''success'', JBool False),
                       (''message'', JStr ''Failed to get feed''),
                       (''error'', JStr ''error'')]\<rparr>)
   \<and> feed school_env school (as_user (teacher_claims\<lparr>userId := ''u4''\<rparr>)) =
     (school, \<lparr>status = 400,
               body = [(''success'', JBool False),
                       (''message'', JStr invalid_role_message),
                       (''userRole'', JStr ''ADMIN'')]\<rparr>)
   \<and> feed school_env school (as_user (student_claims\<lparr>t_role := Some ''TEACHER''\<rparr>)) =
     feed school_env school (as_user student_claims)"
proof -
  let ?teacher = "anonymous_request\<lparr>user := Some (teacher_claims\<lparr>t_role := map_option toUpperCase (t_role teacher_claims)\<rparr>)\<rparr>"
  have tok: "authorization (bearer ''tok-teacher'') = Some ''Bearer tok-teacher''
      \<and> take 7 ''Bearer tok-teacher'' = ''Bearer ''
      \<and> index (split CHR '' '' ''Bearer tok-teacher'') 1 = Some ''tok-teacher''
      \<and> jwt_verify school_env ''tok-teacher'' = Some teacher_claims"
    by (simp add: bearer_def index_def school_env_def)
  have req: "(bearer ''tok-teacher'')\<lparr>user := Some (teacher_claims\<lparr>t_role := map_option toUpperCase (t_role teacher_claims)\<rparr>)\<rparr>
      = (?teacher)\<lparr>authorization := Some ''Bearer tok-teacher''\<rparr>"
    by (simp add: bearer_def)
  have t: "user ((?teacher)\<lparr>authorization := Some ''Bearer tok-teacher''\<rparr>)
             = Some (teacher_claims\<lparr>t_role := map_option toUpperCase (t_role teacher_claims)\<rparr>)
      \<and> prisma_user_findUnique_id school
            (userId (teacher_claims\<lparr>t_role := map_option toUpperCase (t_role teacher_claims)\<rparr>)) = Some tina
      \<and> u_role tina = TEACHER"
    by (simp add: prisma_user_findUnique_id_def school_def teacher_claims_def tina_def)
  have tf: "rev (sort_key j_created_at
              (filter (\<lambda>j. j_teacherId j =
                   userId (teacher_claims\<lparr>t_role := map_option toUpperCase (t_role teacher_claims)\<rparr>))
                 (journals school))) = [j4, j3, j2, j1]"
    by (simp add: school_def teacher_claims_def j1_def j2_def j3_def j4_def)
  have w1: "route_user_feed school_env school (bearer ''tok-teacher'') =
     (school, \<lparr>status = 200,
               body = [(''success'', JBool True),
                       (''message'', JStr ''Teacher feed fetched successfully''),
                       (''journals'', JArr (map (Journal_json school) [j4, j3, j2, j1]))]\<rparr>)"
    using feed_dispatch [of "bearer ''tok-teacher''" school_env school, THEN conjunct1,
            rule_format, OF tok]
          feed_dispatch [of "(?teacher)\<lparr>authorization := Some ''Bearer tok-teacher''\<rparr>" school_env school,
            THEN conjunct2, THEN conjunct2, THEN conjunct1, rule_format, OF t]
    unfolding req tf
    by simp
  have n: "user (as_user (teacher_claims\<lparr>userId := ''u7''\<rparr>)) = Some (teacher_claims\<lparr>userId := ''u7''\<rparr>)
      \<and> prisma_user_findUnique_id school (userId (teacher_claims\<lparr>userId := ''u7''\<rparr>)) = None"
    by (simp add: as_user_def prisma_user_findUnique_id_def school_def tina_def sam_def sue_def ada_def)
  have w2: "feed school_env school (as_user (teacher_claims\<lparr>userId := ''u7''\<rparr>)) =
     (school, \<lparr>status = 404,
               body = [(''success'', JBool False), (''message'', JStr ''User not found'')]\<rparr>)"
    using feed_dispatch [of "as_user (teacher_claims\<lparr>userId := ''u7''\<rparr>)" school_env school,
            THEN conjunct2, THEN conjunct1, rule_format, OF n]
    by simp
  have s: "user (as_user student_claims) = Some student_claims
      \<and> prisma_user_findUnique_id school (userId student_claims) = Some sam \<and> u_role sam = STUDENT"
    by (simp add: as_user_def prisma_user_findUnique_id_def school_def student_claims_def tina_def sam_def)
  have em: "error_message school_env PrismaValidationError = ''error''"
    by (simp add: school_env_def)
  have w3: "feed school_env school (as_user student_claims) =
     (school, \<lparr>status = 500,
               body = [(''success'', JBool False),
                       (''message'', JStr ''Failed to get feed''),
                       (''error'', JStr ''error'')]\<rparr>)"
    using feed_dispatch [of "as_user student_claims" school_env school,
            THEN conjunct2, THEN conjunct2, THEN conjunct2, THEN conjunct1, rule_format, OF s]
    unfolding em
    by simp
  have a: "user (as_user (teacher_claims\<lparr>userId := ''u4''\<rparr>)) = Some (teacher_claims\<lparr>userId := ''u4''\<rparr>)
      \<and> prisma_user_findUnique_id school (userId (teacher_claims\<lparr>userId := ''u4''\<rparr>)) = Some ada
      \<and> u_role ada \<noteq> TEACHER \<and> u_role ada \<noteq> STUDENT"
    by (simp add: as_user_def prisma_user_findUnique_id_def school_def tina_def sam_def sue_def ada_def)
  have an: "Role_name (u_role ada) = ''ADMIN''"
    by (simp add: ada_def)
  have w4: "feed school_env school (as_user (teacher_claims\<lparr>userId := ''u4''\<rparr>)) =
     (school, \<lparr>status = 400,
               body = [(''success'', JBool False),
                       (''message'', JStr invalid_role_message),
                       (''userRole'', JStr ''ADMIN'')]\<rparr>)"
    using feed_dispatch [of "as_user (teacher_claims\<lparr>userId := ''u4''\<rparr>)" school_env school,
            THEN conjunct2, THEN conjunct2, THEN conjunct2, THEN conjunct2, THEN conjunct1,
            rule_format, OF a]
    unfolding an
    by simp
  have r: "(as_user student_claims)\<lparr>user := Some (student_claims\<lparr>t_role := Some ''TEACHER''\<rparr>)\<rparr>
      = as_user (student_claims\<lparr>t_role := Some ''TEACHER''\<rparr>)"
    by (simp add: as_user_def)
  have w5: "feed school_env school (as_user (student_claims\<lparr>t_role := Some ''TEACHER''\<rparr>)) =
     feed school_env school (as_user student_claims)"
    using feed_dispatch [of "as_user student_claims" school_env school,
            THEN conjunct2, THEN conjunct2, THEN conjunct2, THEN conjunct2, THEN conjunct2,
            rule_format, OF s [THEN conjunct1], of "Some ''TEACHER''"]
    unfolding r
    by simp
  from w1 w2 w3 w4 w5 show ?thesis
    by (intro conjI)
qed
section \<open>Registration and login\<close>








text \<open>
  Claim C6. A login answered 200 found a user \<open>u\<close> by the email and the password
  matched its hash; the store is unchanged; the body holds the user object with exactly
  \<open>id\<close>, \<open>name\<close>, \<open>email\<close>, \<open>role\<close>, and the token that \<open>jwt.sign\<close> makes
  of the payload with exactly the keys \<open>userId\<close>, \<open>name\<close>, \<open>email\<close>,
  \<open>role\<close>, signed without \<open>expiresIn\<close> (so without \<open>exp\<close>). The embedded role is
  the stored enum name, which uppercasing leaves as it is. Conversely a matching
  password for a stored email is answered 200.
\<close>

theorem loginUser_success:
  "(\<forall>db' r. loginUser E db req = (db', r) \<and> status r = 200 \<longrightarrow>
      (\<exists>e pw u. req_body req ''email'' = JStr e \<and> req_body req ''password'' = JStr pw
         \<and> List.find (\<lambda>u. u_email u = e) (users db) = Some u
         \<and> bcrypt_compare E pw (u_password u)
         \<and> db' = db
         \<and> body r =
             [(''success'', JBool True),
              (''message'', JStr ''User logged in successfully''),
              (''user'', JObj [(''id'', JStr (u_id u)),
                               (''name'', string_or_null (u_name u)),
                               (''email'', JStr (u_email u)),
                               (''role'', JStr (Role_name (u_role u)))]),
              (''token'', JStr (jwt_sign E [(''userId'', JStr (u_id u)),
                                            (''name'', string_or_null (u_name u)),
                                            (''email'', JStr (u_email u)),
                                            (''role'', JStr (Role_name (u_role u)))] None))]
         \<and> toUpperCase (Role_name (u_role u)) = Role_name (u_role u)))
   \<and> (\<forall>e pw u. req_body req ''email'' = JStr e \<and> req_body req ''password'' = JStr pw
         \<and> List.find (\<lambda>u. u_email u = e) (users db) = Some u
         \<and> bcrypt_compare E pw (u_password u) \<longrightarrow>
      status (snd (loginUser E db req)) = 200)"
proof (intro conjI allI impI)
  fix db' r
  assume A: "loginUser E db req = (db', r) \<and> status r = 200"
  then obtain e where e: "req_body req ''email'' = JStr e"
    by (auto simp: loginUser_def prisma_user_findUnique_email_def failed_def Let_def
        split: jsval.splits)
  with A obtain u where u: "List.find (\<lambda>u. u_email u = e) (users db) = Some u"
    by (cases "List.find (\<lambda>u. u_email u = e) (users db)")
       (auto simp: loginUser_def prisma_user_findUnique_email_def)
  with A e obtain pw where pw: "req_body req ''password'' = JStr pw"
    by (auto simp: loginUser_def prisma_user_findUnique_email_def failed_def Let_def
        split: jsval.splits)
  with A e u have c: "bcrypt_compare E pw (u_password u)"
    by (auto simp: loginUser_def prisma_user_findUnique_email_def Let_def split: if_splits)
  with A e u pw have "db' = db \<and> body r =
             [(''success'', JBool True),
              (''message'', JStr ''User logged in successfully''),
              (''user'', JObj [(''id'', JStr (u_id u)),
                               (''name'', string_or_null (u_name u)),
                               (''email'', JStr (u_email u)),
                               (''role'', JStr (Role_name (u_role u)))]),
              (''token'', JStr (jwt_sign E [(''userId'', JStr (u_id u)),
                                            (''name'', string_or_null (u_name u)),
                                            (''email'', JStr (u_email u)),
                                            (''role'', JStr (Role_name (u_role u)))] None))]"
    by (auto simp: loginUser_def prisma_user_findUnique_email_def Let_def)
  with e u pw c show "\<exists>e pw u. req_body req ''email'' = JStr e \<and> req_body req ''password'' = JStr pw
         \<and> List.find (\<lambda>u. u_email u = e) (users db) = Some u
         \<and> bcrypt_compare E pw (u_password u)
         \<and> db' = db
         \<and> body r =
             [(''success'', JBool True),
              (''message'', JStr ''User logged in successfully''),
              (''user'', JObj [(''id'', JStr (u_id u)),
                               (''name'', string_or_null (u_name u)),
                               (''email'', JStr (u_email u)),
                               (''role'', JStr (Role_name (u_role u)))]),
              (''token'', JStr (jwt_sign E [(''userId'', JStr (u_id u)),
                                            (''name'', string_or_null (u_name u)),
                                            (''email'', JStr (u_email u)),
                                            (''role'', JStr (Role_name (u_role u)))] None))]
         \<and> toUpperCase (Role_name (u_role u)) = Role_name (u_role u)"
    using toUpperCase_Role_name [of "u_role u"] by blast
next
  fix e pw u
  assume "req_body req ''email'' = JStr e \<and> req_body req ''password'' = JStr pw
         \<and> List.find (\<lambda>u. u_email u = e) (users db) = Some u
         \<and> bcrypt_compare E pw (u_password u)"
  then show "status (snd (loginUser E db req)) = 200"
    by (simp add: loginUser_def prisma_user_findUnique_email_def Let_def)
qed

text \<open>Tina logs in with her password.\<close>

theorem loginUser_success_witness:
  "loginUser school_env school
      (post [(''email'', JStr ''tina@school.example''), (''password'', JStr ''chalk'')]) =
     (school,
      \<lparr>status = 200,
       body = [(''success'', JBool True),
               (''message'', JStr ''User logged in successfully''),
               (''user'', JObj [(''id'', JStr ''u1''), (''name'', JStr ''Tina''),
                                (''email'', JStr ''tina@school.example''),
                                (''role'', JStr ''TEACHER'')]),
               (''token'', JStr (jwt_sign school_env
                                   [(''userId'', JStr ''u1''), (''name'', JStr ''Tina''),
                                    (''email'', JStr ''tina@school.example''),
                                    (''role'', JStr ''TEACHER'')] None))]\<rparr>)
   \<and> toUpperCase ''TEACHER'' = ''TEACHER''"
proof -
  let ?req = "post [(''email'', JStr ''tina@school.example''), (''password'', JStr ''chalk'')]"
  obtain db' r where l: "loginUser school_env school ?req = (db', r)"
    by (cases "loginUser school_env school ?req")
  have p: "req_body ?req ''email'' = JStr ''tina@school.example''
         \<and> req_body ?req ''password'' = JStr ''chalk''
         \<and> List.find (\<lambda>u. u_email u = ''tina@school.example'') (users school) = Some tina
         \<and> bcrypt_compare school_env ''chalk'' (u_password tina)"
    by (simp add: post_def body_of_def school_def school_env_def tina_def)
  have s: "status r = 200"
    using loginUser_success [of school_env school ?req, THEN conjunct2, rule_format, OF p] l
    by simp
  from l s obtain e pw u where f: "req_body ?req ''email'' = JStr e"
      "List.find (\<lambda>u. u_email u = e) (users school) = Some u"
      "db' = school"
      "body r =
             [(''success'', JBool True),
              (''message'', JStr ''User logged in successfully''),
              (''user'', JObj [(''id'', JStr (u_id u)),
                               (''name'', string_or_null (u_name u)),
                               (''email'', JStr (u_email u)),
                               (''role'', JStr (Role_name (u_role u)))]),
              (''token'', JStr (jwt_sign school_env [(''userId'', JStr (u_id u)),
                                            (''name'', string_or_null (u_name u)),
                                            (''email'', JStr (u_email u)),
                                            (''role'', JStr (Role_name (u_role u)))] None))]"
      "toUpperCase (Role_name (u_role u)) = Role_name (u_role u)"
    using loginUser_success [of school_env school ?req, THEN conjunct1, rule_format, of db' r]
    by blast
  from f(1) p have "e = ''tina@school.example''"
    by simp
  with f(2) p have u: "u = tina"
    by simp
  have "r = \<lparr>status = status r, body = body r\<rparr>"
    by simp
  with l s f u show ?thesis
    by (simp add: tina_def string_or_null_def)
qed

section \<open>Writing journals\<close>

lemma strings_of_map_JStr: "strings_of (map JStr ids) = Some ids"
  by (induction ids) simp_all

lemma strings_of_Some: "strings_of vs = Some ss \<Longrightarrow> vs = map JStr ss"
proof (induction vs arbitrary: ss rule: strings_of.induct)
  case 1
  then show ?case by simp
next
  case (2 s vs)
  then show ?case by (auto split: option.splits)
qed simp_all

lemma write_journal_rows:
  assumes "write_journal E db jid f = Inr (db', row)"
  shows "(\<exists>j. List.find (\<lambda>j. j_id j = jid) (journals db) = Some j
            \<and> row = (f j)\<lparr>j_updated_at := db_now E\<rparr>)
         \<and> db' = db\<lparr>journals := map (\<lambda>x. if j_id x = jid then row else x) (journals db)\<rparr>"
  using assms by (auto simp: write_journal_def Let_def split: option.splits)

lemma find_in_set: "List.find P xs = Some x \<Longrightarrow> x \<in> set xs \<and> P x"
  by (auto simp: find_Some_iff)

lemma filter_list_all: "list_all P xs \<Longrightarrow> filter P xs = xs"
  by (simp add: list_all_iff)

lemma updateJournal_ok:
  assumes "updateJournal E db req = (db', r)" and "status r = 200"
  shows "\<exists>ids j row. req_body req ''taggedStudents'' = JArr (map JStr ids)
           \<and> List.find (\<lambda>j. j_id j = params_id req) (journals db) = Some j
           \<and> j_taggedStudents row = remdups (filter (user_exists db) ids) \<and> j_id row = j_id j
           \<and> db' = db\<lparr>journals := map (\<lambda>x. if j_id x = params_id req then row else x) (journals db)\<rparr>"
proof -
  from assms obtain mu ids where mu: "optional_toUpperCase (req_body req ''mediaType'') = Inr mu"
      and ids: "array_map_id (req_body req ''taggedStudents'') = Inr ids"
    by (auto simp: updateJournal_def failed_def Let_def split: sum.splits)
  with assms obtain row where
    u: "prisma_journal_update E db (params_id req) (req_body req ''title'') (req_body req ''content'')
          (if truthy (req_body req ''media'') then req_body req ''media'' else JArr []) mu ids
        = Inr (db', row)"
    by (auto simp: updateJournal_def failed_def Let_def split: sum.splits)
  then obtain tagged f where t: "strings_of ids = Some tagged"
      and w: "write_journal E db (params_id req) f = Inr (db', row)"
      and f: "\<And>j. j_taggedStudents (f j) = remdups (filter (user_exists db) tagged)
                \<and> j_id (f j) = j_id j"
    by (auto simp: prisma_journal_update_def split: option.splits if_splits)
  from ids have a: "req_body req ''taggedStudents'' = JArr ids"
    by (auto simp: array_map_id_def split: jsval.splits)
  from write_journal_rows [OF w] obtain j where
    j: "List.find (\<lambda>j. j_id j = params_id req) (journals db) = Some j"
      "row = (f j)\<lparr>j_updated_at := db_now E\<rparr>"
      "db' = db\<lparr>journals := map (\<lambda>x. if j_id x = params_id req then row else x) (journals db)\<rparr>"
    by blast
  from strings_of_Some [OF t] a have "req_body req ''taggedStudents'' = JArr (map JStr tagged)"
    by simp
  moreover from j(2) f have "j_taggedStudents row = remdups (filter (user_exists db) tagged)
      \<and> j_id row = j_id j"
    by simp
  ultimately show ?thesis
    using j(1) j(3) by blast
qed

text \<open>
  Claim C7, as stated, fails in its comparison with \<open>createJournal\<close>: a creation
  request without \<open>taggedStudents\<close> is not tolerated. \<open>parsedTaggedStudents\<close> is
  \<open>undefined\<close>, the call of \<open>map\<close> on it throws, and the answer is 500 "Journal
  creation failed" with the store unchanged.
\<close>

theorem createJournal_missing_tags_counterexample:
  "req_body ((post [(''title'', JStr ''Ecology''), (''content'', JStr ''Ponds'')])
              \<lparr>user := Some teacher_claims\<rparr>) ''taggedStudents'' = JUndefined
   \<and> createJournal school_env school
        ((post [(''title'', JStr ''Ecology''), (''content'', JStr ''Ponds'')])
           \<lparr>user := Some teacher_claims\<rparr>) =
      (school, \<lparr>status = 500,
                body = [(''success'', JBool False),
                        (''message'', JStr ''Journal creation failed''),
                        (''error'', JStr ''error'')]\<rparr>)"
  by (simp add: createJournal_def array_map_id_def failed_def post_def body_of_def
      school_env_def)

text \<open>
  Claim C7, amended. An update answered 200 was given \<open>taggedStudents\<close> as an array
  of ids, and the row with the requested id then carries exactly those of the ids that
  name stored users as tagged students (all of them, when each names a stored user),
  whatever it carried before; every other row is as it was. Such an update
  exists: for an existing journal, string title and content, no media, and a list of
  ids of stored users, the row is rewritten with that list and the answer is 200. An
  update without \<open>taggedStudents\<close> is answered 500 "Failed to update journal" (a
  TypeError from \<open>map\<close> on \<open>undefined\<close>) and changes nothing; a creation without
  \<open>taggedStudents\<close> fails in the same way, with 500 "Journal creation failed".
\<close>

theorem updateJournal_tags:
  "(\<forall>db' r. updateJournal E db req = (db', r) \<and> status r = 200 \<longrightarrow>
      (\<exists>ids j row. req_body req ''taggedStudents'' = JArr (map JStr ids)
         \<and> List.find (\<lambda>j. j_id j = params_id req) (journals db) = Some j
         \<and> j_id row = params_id req
         \<and> j_taggedStudents row = remdups (filter (user_exists db) ids)
         \<and> set (j_taggedStudents row) = {i \<in> set ids. user_exists db i}
         \<and> db' = db\<lparr>journals := map (\<lambda>x. if j_id x = params_id req then row else x)
                                        (journals db)\<rparr>))
   \<and> (\<forall>ids j t c. req_body req ''taggedStudents'' = JArr (map JStr ids)
        \<and> list_all (user_exists db) ids
        \<and> List.find (\<lambda>j. j_id j = params_id req) (journals db) = Some j
        \<and> req_body req ''title'' = JStr t \<and> req_body req ''content'' = JStr c
        \<and> req_body req ''media'' = JUndefined \<and> req_body req ''mediaType'' = JUndefined \<longrightarrow>
      fst (updateJournal E db req) =
        db\<lparr>journals := map (\<lambda>x. if j_id x = params_id req
                                 then j\<lparr>j_title := t, j_content := c, j_media := [],
                                        j_taggedStudents := remdups ids,
                                        j_updated_at := db_now E\<rparr>
                                 else x) (journals db)\<rparr>
      \<and> status (snd (updateJournal E db req)) = 200)
   \<and> (req_body req ''taggedStudents'' = JUndefined \<longrightarrow>
      updateJournal E db req = (db, failed E ''Failed to update journal'' TypeError)
      \<and> status (snd (updateJournal E db req)) = 500)
   \<and> (req_body req ''taggedStudents'' = JUndefined \<longrightarrow>
      createJournal E db req = (db, failed E ''Journal creation failed'' TypeError)
      \<and> status (snd (createJournal E db req)) = 500)"
proof (intro conjI allI impI)
  fix db' r
  assume "updateJournal E db req = (db', r) \<and> status r = 200"
  then obtain ids j row where
    "req_body req ''taggedStudents'' = JArr (map JStr ids)"
    "List.find (\<lambda>j. j_id j = params_id req) (journals db) = Some j"
    "j_taggedStudents row = remdups (filter (user_exists db) ids)" "j_id row = j_id j"
    "db' = db\<lparr>journals := map (\<lambda>x. if j_id x = params_id req then row else x) (journals db)\<rparr>"
    using updateJournal_ok [of E db req db' r] by blast
  moreover from this have "j_id row = params_id req
      \<and> set (j_taggedStudents row) = {i \<in> set ids. user_exists db i}"
    by (auto dest: find_in_set)
  ultimately show "\<exists>ids j row. req_body req ''taggedStudents'' = JArr (map JStr ids)
         \<and> List.find (\<lambda>j. j_id j = params_id req) (journals db) = Some j
         \<and> j_id row = params_id req
         \<and> j_taggedStudents row = remdups (filter (user_exists db) ids)
         \<and> set (j_taggedStudents row) = {i \<in> set ids. user_exists db i}
         \<and> db' = db\<lparr>journals := map (\<lambda>x. if j_id x = params_id req then row else x)
                                        (journals db)\<rparr>"
    by blast
next
  fix ids j t c
  assume A: "req_body req ''taggedStudents'' = JArr (map JStr ids)
        \<and> list_all (user_exists db) ids
        \<and> List.find (\<lambda>j. j_id j = params_id req) (journals db) = Some j
        \<and> req_body req ''title'' = JStr t \<and> req_body req ''content'' = JStr c
        \<and> req_body req ''media'' = JUndefined \<and> req_body req ''mediaType'' = JUndefined"
  then show "fst (updateJournal E db req) =
        db\<lparr>journals := map (\<lambda>x. if j_id x = params_id req
                                 then j\<lparr>j_title := t, j_content := c, j_media := [],
                                        j_taggedStudents := remdups ids,
                                        j_updated_at := db_now E\<rparr>
                                 else x) (journals db)\<rparr>"
    by (simp add: updateJournal_def array_map_id_def prisma_journal_update_def
        updated_string_def string_list_def mediaType_arg_def strings_of_map_JStr
        write_journal_def Let_def filter_list_all)
  from A show "status (snd (updateJournal E db req)) = 200"
    by (simp add: updateJournal_def array_map_id_def prisma_journal_update_def
        updated_string_def string_list_def mediaType_arg_def strings_of_map_JStr
        write_journal_def Let_def filter_list_all)
next
  assume A: "req_body req ''taggedStudents'' = JUndefined"
  then show "updateJournal E db req = (db, failed E ''Failed to update journal'' TypeError)"
    by (cases "req_body req ''mediaType''")
       (simp_all add: updateJournal_def array_map_id_def)
  then show "status (snd (updateJournal E db req)) = 500"
    by (simp add: failed_def)
next
  assume A: "req_body req ''taggedStudents'' = JUndefined"
  then show "createJournal E db req = (db, failed E ''Journal creation failed'' TypeError)"
    by (cases "req_body req ''mediaType''"; cases "user req")
       (simp_all add: createJournal_def array_map_id_def)
  then show "status (snd (createJournal E db req)) = 500"
    by (simp add: failed_def)
qed


text \<open>
  Journal \<open>j1\<close> tags \<open>u2\<close> and \<open>u3\<close>; an update with the list \<open>[u3]\<close> leaves it
  tagging \<open>u3\<close> alone. The same update without the list, and a creation without it,
  are answered 500.
\<close>

theorem updateJournal_tags_witness:
  "fst (updateJournal school_env school
          (post [(''title'', JStr ''Algebra II''), (''content'', JStr ''Rings''),
                 (''taggedStudents'', JArr [JStr ''u3''])])) =
     school\<lparr>journals :=
       [j1\<lparr>j_title := ''Algebra II'', j_content := ''Rings'', j_media := [],
           j_taggedStudents := [''u3''], j_updated_at := 1704067200000\<rparr>, j2, j3, j4]\<rparr>
   \<and> status (snd (updateJournal school_env school
          (post [(''title'', JStr ''Algebra II''), (''content'', JStr ''Rings''),
                 (''taggedStudents'', JArr [JStr ''u3''])]))) = 200
   \<and> (\<exists>row. j_id row = ''j1'' \<and> set (j_taggedStudents row) = {''u3''}
         \<and> fst (updateJournal school_env school
              (post [(''title'', JStr ''Algebra II''), (''content'', JStr ''Rings''),
                     (''taggedStudents'', JArr [JStr ''u3''])])) =
            school\<lparr>journals := map (\<lambda>x. if j_id x = ''j1'' then row else x) (journals school)\<rparr>)
   \<and> updateJournal school_env school
        (post [(''title'', JStr ''Algebra II''), (''content'', JStr ''Rings'')]) =
      (school, \<lparr>status = 500,
                body = [(''success'', JBool False),
                        (''message'', JStr ''Failed to update journal''),
                        (''error'', JStr ''error'')]\<rparr>)
   \<and> createJournal school_env school
        ((post [(''title'', JStr ''Ecology''), (''content'', JStr ''Ponds'')])
           \<lparr>user := Some teacher_claims\<rparr>) =
      (school, \<lparr>status = 500,
                body = [(''success'', JBool False),
                        (''message'', JStr ''Journal creation failed''),
                        (''error'', JStr ''error'')]\<rparr>)"
proof -
  let ?upd = "post [(''title'', JStr ''Algebra II''), (''content'', JStr ''Rings''),
                 (''taggedStudents'', JArr [JStr ''u3''])]"
  let ?bare = "post [(''title'', JStr ''Algebra II''), (''content'', JStr ''Rings'')]"
  let ?new = "(post [(''title'', JStr ''Ecology''), (''content'', JStr ''Ponds'')])
           \<lparr>user := Some teacher_claims\<rparr>"
  have a: "req_body ?upd ''taggedStudents'' = JArr (map JStr [''u3''])
        \<and> list_all (user_exists school) [''u3'']
        \<and> List.find (\<lambda>j. j_id j = params_id ?upd) (journals school) = Some j1
        \<and> req_body ?upd ''title'' = JStr ''Algebra II'' \<and> req_body ?upd ''content'' = JStr ''Rings''
        \<and> req_body ?upd ''media'' = JUndefined \<and> req_body ?upd ''mediaType'' = JUndefined"
    by (simp add: post_def body_of_def anonymous_request_def user_exists_def school_def
        tina_def sam_def sue_def ada_def j1_def)
  have rows: "map (\<lambda>x. if j_id x = params_id ?upd
                       then j1\<lparr>j_title := ''Algebra II'', j_content := ''Rings'', j_media := [],
                              j_taggedStudents := remdups [''u3''],
                              j_updated_at := db_now school_env\<rparr>
                       else x) (journals school) =
       [j1\<lparr>j_title := ''Algebra II'', j_content := ''Rings'', j_media := [],
           j_taggedStudents := [''u3''], j_updated_at := 1704067200000\<rparr>, j2, j3, j4]"
    by (simp add: post_def anonymous_request_def school_def school_env_def
        j1_def j2_def j3_def j4_def)
  note ok = updateJournal_tags [of school_env school ?upd, THEN conjunct2, THEN conjunct1,
      rule_format, OF a]
  have w1: "fst (updateJournal school_env school ?upd) =
     school\<lparr>journals :=
       [j1\<lparr>j_title := ''Algebra II'', j_content := ''Rings'', j_media := [],
           j_taggedStudents := [''u3''], j_updated_at := 1704067200000\<rparr>, j2, j3, j4]\<rparr>"
    using ok [THEN conjunct1] unfolding rows .
  have w2: "status (snd (updateJournal school_env school ?upd)) = 200"
    using ok [THEN conjunct2] .
  obtain db' r where u: "updateJournal school_env school ?upd = (db', r)"
    by (cases "updateJournal school_env school ?upd")
  with w2 have "updateJournal school_env school ?upd = (db', r) \<and> status r = 200"
    by simp
  from updateJournal_tags [of school_env school ?upd, THEN conjunct1, rule_format, OF this]
  obtain ids j row where r: "req_body ?upd ''taggedStudents'' = JArr (map JStr ids)"
      "j_id row = params_id ?upd"
      "set (j_taggedStudents row) = {i \<in> set ids. user_exists school i}"
      "db' = school\<lparr>journals := map (\<lambda>x. if j_id x = params_id ?upd then row else x)
                                        (journals school)\<rparr>"
    by blast
  from r(1) have "map JStr ids = [JStr ''u3'']"
    by (simp add: post_def body_of_def)
  then have ids: "ids = [''u3'']"
    by (cases ids) auto
  have "user_exists school ''u3''"
    by (simp add: user_exists_def school_def tina_def sam_def sue_def)
  with ids have "{i \<in> set ids. user_exists school i} = {''u3''}"
    by auto
  with r u have w3: "\<exists>row. j_id row = ''j1'' \<and> set (j_taggedStudents row) = {''u3''}
         \<and> fst (updateJournal school_env school ?upd) =
            school\<lparr>journals := map (\<lambda>x. if j_id x = ''j1'' then row else x) (journals school)\<rparr>"
    by (intro exI [of _ row]) (simp add: post_def anonymous_request_def)
  have b: "req_body ?bare ''taggedStudents'' = JUndefined"
    by (simp add: post_def body_of_def)
  have w4: "updateJournal school_env school ?bare =
      (school, \<lparr>status = 500,
                body = [(''success'', JBool False),
                        (''message'', JStr ''Failed to update journal''),
                        (''error'', JStr ''error'')]\<rparr>)"
    using updateJournal_tags [of school_env school ?bare, THEN conjunct2, THEN conjunct2,
            THEN conjunct1, rule_format, OF b, THEN conjunct1]
    by (simp add: failed_def school_env_def)
  have c: "req_body ?new ''taggedStudents'' = JUndefined"
    by (simp add: post_def body_of_def)
  have w5: "createJournal school_env school ?new =
      (school, \<lparr>status = 500,
                body = [(''success'', JBool False),
                        (''message'', JStr ''Journal creation failed''),
                        (''error'', JStr ''error'')]\<rparr>)"
    using updateJournal_tags [of school_env school ?new, THEN conjunct2, THEN conjunct2,
            THEN conjunct2, rule_format, OF c, THEN conjunct1]
    by (simp add: failed_def school_env_def)
  from w1 w2 w3 w4 w5 show ?thesis
    by (intro conjI)
qed

section \<open>A journal id that no row has\<close>

lemma updateJournal_status:
  "status (snd (updateJournal E db req)) = 200 \<or> status (snd (updateJournal E db req)) = 500"
  by (auto simp: updateJournal_def failed_def Let_def split: sum.splits prod.splits)

text \<open>
  Claim C9 asks for 404 from \<open>PUT /journal/:id\<close> and \<open>DELETE /journal/:id\<close> when
  no journal has the id. The handlers have no such branch: \<open>prisma.journal.update\<close>
  and \<open>prisma.journal.delete\<close> throw for a missing row (when \<open>updateJournal\<close> has
  not failed before), the \<open>catch\<close> block answers 500, and the store is unchanged.
  Only \<open>getJournalById\<close> answers 404. The same holds on the route
  \<open>DELETE /journal/:id\<close> for a verified token whose role uppercases to TEACHER.
\<close>

theorem missing_journal_never_404:
  "List.find (\<lambda>j. j_id j = params_id req) (journals db) = None \<longrightarrow>
     status (snd (updateJournal E db req)) = 500
     \<and> fst (updateJournal E db req) = db
     \<and> deleteJournal E db req = (db, failed E ''Failed to delete journal'' PrismaRecordNotFound)
     \<and> status (snd (deleteJournal E db req)) = 500
     \<and> getJournalById E db req =
         (db, \<lparr>status = 404,
               body = [(''success'', JBool False), (''message'', JStr ''Journal not found'')]\<rparr>)
     \<and> (\<forall>a tok c r. authorization req = Some a \<and> take 7 a = ''Bearer ''
           \<and> index (split CHR '' '' a) 1 = Some tok \<and> jwt_verify E tok = Some c
           \<and> t_role c = Some r \<and> toUpperCase r = ''TEACHER'' \<longrightarrow>
         route_journal_delete E db req =
           (db, failed E ''Failed to delete journal'' PrismaRecordNotFound))"
proof (intro impI conjI allI)
  assume A: "List.find (\<lambda>j. j_id j = params_id req) (journals db) = None"
  {
    fix a tok c r
    assume "authorization req = Some a \<and> take 7 a = ''Bearer ''
           \<and> index (split CHR '' '' a) 1 = Some tok \<and> jwt_verify E tok = Some c
           \<and> t_role c = Some r \<and> toUpperCase r = ''TEACHER''"
    then have "authenticate E req =
        Next (req\<lparr>user := Some (c\<lparr>t_role := Some ''TEACHER''\<rparr>)\<rparr>)"
      by (auto simp: authenticate_def)
    moreover have "restrictTo [''teacher''] (req\<lparr>user := Some (c\<lparr>t_role := Some ''TEACHER''\<rparr>)\<rparr>) =
        Next (req\<lparr>user := Some (c\<lparr>t_role := Some ''TEACHER''\<rparr>)\<rparr>)"
      by (simp add: restrictTo_def toUpperCase_upper toUpperCase_teacher)
    ultimately show "route_journal_delete E db req =
           (db, failed E ''Failed to delete journal'' PrismaRecordNotFound)"
      using A by (simp add: route_journal_delete_def deleteJournal_def prisma_journal_delete_def)
  }
  have "status (snd (updateJournal E db req)) \<noteq> 200"
  proof
    assume s: "status (snd (updateJournal E db req)) = 200"
    obtain db' r where u: "updateJournal E db req = (db', r)"
      by (cases "updateJournal E db req")
    with s have "status r = 200"
      by simp
    from updateJournal_ok [OF u this] A show False
      by auto
  qed
  with updateJournal_status [of E db req] show "status (snd (updateJournal E db req)) = 500"
    by blast
  then show "fst (updateJournal E db req) = db"
    by (auto simp: updateJournal_def Let_def split: sum.splits prod.splits)
  from A show "deleteJournal E db req =
      (db, failed E ''Failed to delete journal'' PrismaRecordNotFound)"
    by (simp add: deleteJournal_def prisma_journal_delete_def)
  then show "status (snd (deleteJournal E db req)) = 500"
    by (simp add: failed_def)
  from A show "getJournalById E db req =
         (db, \<lparr>status = 404,
               body = [(''success'', JBool False), (''message'', JStr ''Journal not found'')]\<rparr>)"
    by (simp add: getJournalById_def prisma_journal_findUnique_def)
qed

text \<open>The id \<open>j404\<close> in the concrete school: 500 from update and delete, 404 from get.\<close>

theorem missing_journal_never_404_witness:
  "status (snd (updateJournal school_env school
       ((post [(''title'', JStr ''Algebra II''), (''content'', JStr ''Rings''),
               (''taggedStudents'', JArr [JStr ''u3''])])\<lparr>params_id := ''j404''\<rparr>))) = 500
   \<and> status (snd (deleteJournal school_env school
       ((post [(''title'', JStr ''Algebra II''), (''content'', JStr ''Rings''),
               (''taggedStudents'', JArr [JStr ''u3''])])\<lparr>params_id := ''j404''\<rparr>))) = 500
   \<and> status (snd (getJournalById school_env school
       ((post [(''title'', JStr ''Algebra II''), (''content'', JStr ''Rings''),
               (''taggedStudents'', JArr [JStr ''u3''])])\<lparr>params_id := ''j404''\<rparr>))) = 404
   \<and> status (snd (route_journal_delete school_env school
       ((bearer ''tok-teacher'')\<lparr>params_id := ''j404''\<rparr>))) = 500"
proof -
  let ?req = "(post [(''title'', JStr ''Algebra II''), (''content'', JStr ''Rings''),
               (''taggedStudents'', JArr [JStr ''u3''])])\<lparr>params_id := ''j404''\<rparr>"
  have a: "List.find (\<lambda>j. j_id j = params_id ?req) (journals school) = None"
    by (simp add: school_def j1_def j2_def j3_def j4_def)
  let ?del = "(bearer ''tok-teacher'')\<lparr>params_id := ''j404''\<rparr>"
  have b: "List.find (\<lambda>j. j_id j = params_id ?del) (journals school) = None"
    by (simp add: school_def j1_def j2_def j3_def j4_def)
  have tok: "authorization ?del = Some ''Bearer tok-teacher''
      \<and> take 7 ''Bearer tok-teacher'' = ''Bearer ''
      \<and> index (split CHR '' '' ''Bearer tok-teacher'') 1 = Some ''tok-teacher''
      \<and> jwt_verify school_env ''tok-teacher'' = Some teacher_claims
      \<and> t_role teacher_claims = Some ''TEACHER'' \<and> toUpperCase ''TEACHER'' = ''TEACHER''"
    by (simp add: bearer_def index_def school_env_def teacher_claims_def toUpperCase_upper)
  have "route_journal_delete school_env school ?del =
      (school, failed school_env ''Failed to delete journal'' PrismaRecordNotFound)"
    using missing_journal_never_404 [of ?del school school_env, rule_format, OF b]
      tok by blast
  then have d: "status (snd (route_journal_delete school_env school ?del)) = 500"
    by (simp add: failed_def)
  from missing_journal_never_404 [of ?req school school_env, rule_format, OF a] d
  show ?thesis
    by (simp add: failed_def)
qed

section \<open>Publishing\<close>






















end
